theory Spec2Isabelle
  imports Complex_Main "HOL-Library.Char_ord" "HOL-Library.List_Lexorder"
begin

section \<open>Python values, errors and library functions\<close>

text \<open>
  The two modules are Python. Exceptions that leave a function are values of
  \<open>pyerror\<close>; a function that can raise returns \<open>pyerror + 'a\<close>. \<open>Unmodelled\<close> is not
  a Python exception: it marks a value whose Python type the typed records below cannot
  hold (Python itself would carry the value on).
\<close>

datatype pyerror = ValueError | TypeError | KeyError | OverflowError | Unmodelled

definition bind_result :: "'e + 'a \<Rightarrow> ('a \<Rightarrow> 'e + 'b) \<Rightarrow> 'e + 'b" where
  "bind_result m f = (case m of Inl e \<Rightarrow> Inl e | Inr x \<Rightarrow> f x)"

text \<open>A list comprehension or loop whose body can raise: the first exception ends it.\<close>

fun traverse :: "('a \<Rightarrow> 'e + 'b) \<Rightarrow> 'a list \<Rightarrow> 'e + 'b list" where
  "traverse f [] = Inr []"
| "traverse f (x # xs) =
     (case f x of Inl e \<Rightarrow> Inl e
      | Inr y \<Rightarrow> (case traverse f xs of Inl e \<Rightarrow> Inl e | Inr ys \<Rightarrow> Inr (y # ys)))"

text \<open>
  The JSON values that \<open>save_tasks\<close> writes into a task record: null, integers and
  strings. A task as the \<open>json\<close> module hands it over is a dictionary from field names
  to such values. Strings are byte lists holding the UTF-8 text; the Russian messages
  and status labels of the source are spelled out as their bytes.
\<close>

datatype json = JNull | JInt int | JStr string

type_synonym pydict = "(string \<times> json) list"

definition dict_item :: "pydict \<Rightarrow> string \<Rightarrow> pyerror + json" where
  \<comment> \<open>\<open>data[k]\<close>\<close>
  "dict_item d k = (case map_of d k of None \<Rightarrow> Inl KeyError | Some v \<Rightarrow> Inr v)"

definition dict_get :: "pydict \<Rightarrow> string \<Rightarrow> json \<Rightarrow> json" where
  \<comment> \<open>\<open>data.get(k, default)\<close>; \<open>data.get(k)\<close> has the default \<open>None\<close>, here \<open>JNull\<close>\<close>
  "dict_get d k dflt = (case map_of d k of None \<Rightarrow> dflt | Some v \<Rightarrow> v)"

text \<open>\<open>needle in haystack\<close> on strings: the needle occurs as a contiguous block.\<close>

fun str_in :: "string \<Rightarrow> string \<Rightarrow> bool" where
  "str_in xs [] = (xs = [])"
| "str_in xs (y # ys) = (take (length xs) (y # ys) = xs \<or> str_in xs ys)"

text \<open>\<open>max(xs, default=d)\<close> on a list.\<close>

definition py_max :: "int list \<Rightarrow> int \<Rightarrow> int" where
  "py_max xs dflt = (case xs of [] \<Rightarrow> dflt | x # rest \<Rightarrow> fold max rest x)"

text \<open>
  \<open>x or y\<close> where \<open>x\<close> is \<open>None\<close> or a string: \<open>None\<close> and the empty string are falsy.
\<close>

definition py_or :: "string option \<Rightarrow> string \<Rightarrow> string" where
  "py_or x y = (case x of None \<Rightarrow> y | Some s \<Rightarrow> if s = [] then y else s)"

definition truthy_str :: "string option \<Rightarrow> bool" where
  "truthy_str x = (case x of None \<Rightarrow> False | Some s \<Rightarrow> s \<noteq> [])"

definition truthy_int :: "int option \<Rightarrow> bool" where
  "truthy_int x = (case x of None \<Rightarrow> False | Some n \<Rightarrow> n \<noteq> 0)"

section \<open>Dates and times\<close>

text \<open>
  A \<open>datetime\<close> value: the proleptic Gregorian day number of its date
  (\<open>date.toordinal()\<close>), the microseconds since midnight, and the UTC offset in
  microseconds when the value is timezone-aware. \<open>datetime.now()\<close> is naive.
\<close>

record datetime =
  ordinal :: int
  micros :: nat
  utcoffset :: "int option"

type_synonym reading = "int \<times> nat"

definition datetime_now :: "reading \<Rightarrow> datetime" where
  "datetime_now r = \<lparr>ordinal = fst r, micros = snd r, utcoffset = None\<rparr>"

text \<open>
  The functions of the standard library that the modules call on strings and dates are
  parameters of the model: \<open>str.strip\<close>, \<open>str.lower\<close>, \<open>datetime.fromisoformat\<close>
  (\<open>None\<close> when it raises \<open>ValueError\<close>) and \<open>strftime('%Y-%m-%d')\<close>, which depends on
  the date only.
\<close>

record pylib =
  str_strip :: "string \<Rightarrow> string"
  str_lower :: "string \<Rightarrow> string"
  fromisoformat :: "string \<Rightarrow> datetime option"
  strftime_ymd :: "int \<Rightarrow> string"

definition MAX_DELTA_DAYS :: int where
  "MAX_DELTA_DAYS = 999999999"

definition MAX_ORDINAL :: int where
  "MAX_ORDINAL = 3652059"

text \<open>
  \<open>dt + timedelta(days=n)\<close>: \<open>timedelta\<close> refuses more than 999999999 days, and the
  sum must be a date of the years 1 to 9999. \<open>dt - timedelta(days=n)\<close> likewise.
\<close>

definition add_days :: "datetime \<Rightarrow> int \<Rightarrow> pyerror + datetime" where
  "add_days dt n =
     (if \<bar>n\<bar> > MAX_DELTA_DAYS then Inl OverflowError
      else if 1 \<le> ordinal dt + n \<and> ordinal dt + n \<le> MAX_ORDINAL
           then Inr (dt\<lparr>ordinal := ordinal dt + n\<rparr>)
      else Inl OverflowError)"

definition sub_days :: "datetime \<Rightarrow> int \<Rightarrow> pyerror + datetime" where
  "sub_days dt n =
     (if \<bar>n\<bar> > MAX_DELTA_DAYS then Inl OverflowError
      else if 1 \<le> ordinal dt - n \<and> ordinal dt - n \<le> MAX_ORDINAL
           then Inr (dt\<lparr>ordinal := ordinal dt - n\<rparr>)
      else Inl OverflowError)"

definition instant :: "datetime \<Rightarrow> int" where
  "instant dt = ordinal dt * 86400000000 + int (micros dt)
                 - (case utcoffset dt of None \<Rightarrow> 0 | Some off \<Rightarrow> off)"

text \<open>
  \<open>a <= b\<close> on datetimes: two naive values compare by date and time, two aware values
  by their instants, and a naive with an aware value raises \<open>TypeError\<close>.
\<close>

definition dt_le :: "datetime \<Rightarrow> datetime \<Rightarrow> pyerror + bool" where
  "dt_le a b =
     (if (utcoffset a = None) \<noteq> (utcoffset b = None) then Inl TypeError
      else Inr (instant a \<le> instant b))"

section \<open>The task store\<close>

definition STATUS_ACTIVE :: string where
  "STATUS_ACTIVE = [CHR 0xD0, CHR 0xB0, CHR 0xD0, CHR 0xBA, CHR 0xD1, CHR 0x82, CHR 0xD0,
     CHR 0xB8, CHR 0xD0, CHR 0xB2, CHR 0xD0, CHR 0xBD, CHR 0xD0, CHR 0xB0, CHR 0xD1, CHR 0x8F]"

definition MSG_EMPTY_TITLE :: string where
  "MSG_EMPTY_TITLE = [CHR 0xD0, CHR 0x9D, CHR 0xD0, CHR 0xB0, CHR 0xD0, CHR 0xB7, CHR 0xD0,
     CHR 0xB2, CHR 0xD0, CHR 0xB0, CHR 0xD0, CHR 0xBD, CHR 0xD0, CHR 0xB8, CHR 0xD0, CHR 0xB5,
     CHR 0x20, CHR 0xD0, CHR 0xB7, CHR 0xD0, CHR 0xB0, CHR 0xD0, CHR 0xB4, CHR 0xD0, CHR 0xB0,
     CHR 0xD1, CHR 0x87, CHR 0xD0, CHR 0xB8, CHR 0x20, CHR 0xD0, CHR 0xBD, CHR 0xD0, CHR 0xB5,
     CHR 0x20, CHR 0xD0, CHR 0xBC, CHR 0xD0, CHR 0xBE, CHR 0xD0, CHR 0xB6, CHR 0xD0, CHR 0xB5,
     CHR 0xD1, CHR 0x82, CHR 0x20, CHR 0xD0, CHR 0xB1, CHR 0xD1, CHR 0x8B, CHR 0xD1, CHR 0x82,
     CHR 0xD1, CHR 0x8C, CHR 0x20, CHR 0xD0, CHR 0xBF, CHR 0xD1, CHR 0x83, CHR 0xD1, CHR 0x81,
     CHR 0xD1, CHR 0x82, CHR 0xD1, CHR 0x8B, CHR 0xD0, CHR 0xBC]"

definition MSG_CREATED :: string where
  "MSG_CREATED = [CHR 0xD0, CHR 0x97, CHR 0xD0, CHR 0xB0, CHR 0xD0, CHR 0xB4, CHR 0xD0,
     CHR 0xB0, CHR 0xD1, CHR 0x87, CHR 0xD0, CHR 0xB0, CHR 0x20, CHR 0xD1, CHR 0x83, CHR 0xD1,
     CHR 0x81, CHR 0xD0, CHR 0xBF, CHR 0xD0, CHR 0xB5, CHR 0xD1, CHR 0x88, CHR 0xD0, CHR 0xBD,
     CHR 0xD0, CHR 0xBE, CHR 0x20, CHR 0xD1, CHR 0x81, CHR 0xD0, CHR 0xBE, CHR 0xD0, CHR 0xB7,
     CHR 0xD0, CHR 0xB4, CHR 0xD0, CHR 0xB0, CHR 0xD0, CHR 0xBD, CHR 0xD0, CHR 0xB0]"

definition MSG_NOT_FOUND :: string where
  "MSG_NOT_FOUND = [CHR 0xD0, CHR 0x97, CHR 0xD0, CHR 0xB0, CHR 0xD0, CHR 0xB4, CHR 0xD0,
     CHR 0xB0, CHR 0xD1, CHR 0x87, CHR 0xD0, CHR 0xB0, CHR 0x20, CHR 0xD0, CHR 0xBD, CHR 0xD0,
     CHR 0xB5, CHR 0x20, CHR 0xD0, CHR 0xBD, CHR 0xD0, CHR 0xB0, CHR 0xD0, CHR 0xB9, CHR 0xD0,
     CHR 0xB4, CHR 0xD0, CHR 0xB5, CHR 0xD0, CHR 0xBD, CHR 0xD0, CHR 0xB0]"

definition MSG_UPDATED :: string where
  "MSG_UPDATED = [CHR 0xD0, CHR 0x97, CHR 0xD0, CHR 0xB0, CHR 0xD0, CHR 0xB4, CHR 0xD0,
     CHR 0xB0, CHR 0xD1, CHR 0x87, CHR 0xD0, CHR 0xB0, CHR 0x20, CHR 0xD1, CHR 0x83, CHR 0xD1,
     CHR 0x81, CHR 0xD0, CHR 0xBF, CHR 0xD0, CHR 0xB5, CHR 0xD1, CHR 0x88, CHR 0xD0, CHR 0xBD,
     CHR 0xD0, CHR 0xBE, CHR 0x20, CHR 0xD0, CHR 0xBE, CHR 0xD0, CHR 0xB1, CHR 0xD0, CHR 0xBD,
     CHR 0xD0, CHR 0xBE, CHR 0xD0, CHR 0xB2, CHR 0xD0, CHR 0xBB, CHR 0xD0, CHR 0xB5, CHR 0xD0,
     CHR 0xBD, CHR 0xD0, CHR 0xB0]"

definition MSG_DELETED :: string where
  "MSG_DELETED = [CHR 0xD0, CHR 0x97, CHR 0xD0, CHR 0xB0, CHR 0xD0, CHR 0xB4, CHR 0xD0,
     CHR 0xB0, CHR 0xD1, CHR 0x87, CHR 0xD0, CHR 0xB0, CHR 0x20, CHR 0xD1, CHR 0x83, CHR 0xD1,
     CHR 0x81, CHR 0xD0, CHR 0xBF, CHR 0xD0, CHR 0xB5, CHR 0xD1, CHR 0x88, CHR 0xD0, CHR 0xBD,
     CHR 0xD0, CHR 0xBE, CHR 0x20, CHR 0xD1, CHR 0x83, CHR 0xD0, CHR 0xB4, CHR 0xD0, CHR 0xB0,
     CHR 0xD0, CHR 0xBB, CHR 0xD0, CHR 0xB5, CHR 0xD0, CHR 0xBD, CHR 0xD0, CHR 0xB0]"

text \<open>
  A \<open>Task\<close> object. The field \<open>id\<close> of the source is \<open>ident\<close> here. The identifier is a
  Python integer, the other five fields are strings; the two timestamps are the
  \<open>isoformat()\<close> texts of clock readings.
\<close>

record Task =
  ident :: int
  title :: string
  description :: string
  status :: string
  created_at :: string
  updated_at :: string

text \<open>
  \<open>Task.__init__\<close>. The constructor reads the clock once for each timestamp it has to
  fill in; \<open>now\<close> carries the \<open>isoformat()\<close> texts of these two readings.
\<close>

definition Task_init ::
  "string \<times> string \<Rightarrow> int \<Rightarrow> string \<Rightarrow> string \<Rightarrow> string \<Rightarrow> string option \<Rightarrow> string option
     \<Rightarrow> Task" where
  "Task_init now i t d st c u =
     \<lparr>ident = i, title = t, description = d, status = st,
      created_at = py_or c (fst now), updated_at = py_or u (snd now)\<rparr>"

definition to_dict :: "Task \<Rightarrow> pydict" where
  "to_dict task =
     [(''id'', JInt (ident task)),
      (''title'', JStr (title task)),
      (''description'', JStr (description task)),
      (''status'', JStr (status task)),
      (''created_at'', JStr (created_at task)),
      (''updated_at'', JStr (updated_at task))]"

definition as_int :: "json \<Rightarrow> pyerror + int" where
  "as_int v = (case v of JInt n \<Rightarrow> Inr n | _ \<Rightarrow> Inl Unmodelled)"

definition as_str :: "json \<Rightarrow> pyerror + string" where
  "as_str v = (case v of JStr s \<Rightarrow> Inr s | _ \<Rightarrow> Inl Unmodelled)"

definition as_str_opt :: "json \<Rightarrow> pyerror + string option" where
  "as_str_opt v = (case v of JNull \<Rightarrow> Inr None | JStr s \<Rightarrow> Inr (Some s) | _ \<Rightarrow> Inl Unmodelled)"

text \<open>
  \<open>Task.from_dict\<close>: the four subscripts raise \<open>KeyError\<close> on a missing key, in the order
  of the call's arguments; the two \<open>get\<close>s give \<open>None\<close> instead.
\<close>

definition from_dict :: "string \<times> string \<Rightarrow> pydict \<Rightarrow> pyerror + Task" where
  "from_dict now data =
     bind_result (dict_item data ''id'') (\<lambda>v_id.
     bind_result (dict_item data ''title'') (\<lambda>v_title.
     bind_result (dict_item data ''description'') (\<lambda>v_description.
     bind_result (dict_item data ''status'') (\<lambda>v_status.
     bind_result (as_int v_id) (\<lambda>i.
     bind_result (as_str v_title) (\<lambda>t.
     bind_result (as_str v_description) (\<lambda>d.
     bind_result (as_str v_status) (\<lambda>st.
     bind_result (as_str_opt (dict_get data ''created_at'' JNull)) (\<lambda>c.
     bind_result (as_str_opt (dict_get data ''updated_at'' JNull)) (\<lambda>u.
       Inr (Task_init now i t d st c u)))))))))))"

text \<open>
  The file \<open>tasks.json\<close>: absent, present with text that \<open>json.load\<close> rejects with
  \<open>JSONDecodeError\<close>, or present with a JSON array of task records. \<open>json.dump\<close>
  followed by \<open>json.load\<close> gives back the array that was written, and every write of the
  file succeeds.
\<close>

datatype disk = Absent | Corrupt | Doc "pydict list"

text \<open>A \<open>TaskManager\<close> together with the file it reads and writes.\<close>

record state =
  tasks :: "Task list"
  tasks_file :: disk

text \<open>
  \<open>load_tasks\<close>; \<open>rd k\<close> are the clock readings at hand while record \<open>k\<close> of the file is
  turned into a \<open>Task\<close>.
\<close>

definition load_tasks :: "(nat \<Rightarrow> string \<times> string) \<Rightarrow> state \<Rightarrow> pyerror + state" where
  "load_tasks rd s =
     (case tasks_file s of
        Absent \<Rightarrow> Inr (s\<lparr>tasks := []\<rparr>)
      | Corrupt \<Rightarrow> Inr (s\<lparr>tasks := []\<rparr>)
      | Doc tasks_data \<Rightarrow>
          bind_result (traverse (\<lambda>(k, task). from_dict (rd k) task) (enumerate 0 tasks_data))
            (\<lambda>ts. Inr (s\<lparr>tasks := ts\<rparr>)))"

definition TaskManager_init :: "(nat \<Rightarrow> string \<times> string) \<Rightarrow> disk \<Rightarrow> pyerror + state" where
  "TaskManager_init rd f = load_tasks rd \<lparr>tasks = [], tasks_file = f\<rparr>"

definition save_tasks :: "state \<Rightarrow> state" where
  "save_tasks s = s\<lparr>tasks_file := Doc (map to_dict (tasks s))\<rparr>"

definition create_task ::
  "pylib \<Rightarrow> string \<times> string \<Rightarrow> string \<Rightarrow> string \<Rightarrow> state \<Rightarrow> (Task option \<times> string) \<times> state" where
  "create_task L now title' description' s =
     (if str_strip L title' = [] then ((None, MSG_EMPTY_TITLE), s)
      else
        let new_id = py_max (map ident (tasks s)) 0 + 1;
            task = Task_init now new_id title' description' STATUS_ACTIVE None None
        in ((Some task, MSG_CREATED), save_tasks (s\<lparr>tasks := tasks s @ [task]\<rparr>)))"

definition get_task :: "state \<Rightarrow> int \<Rightarrow> Task option" where
  "get_task s task_id = find (\<lambda>task. ident task = task_id) (tasks s)"

text \<open>
  \<open>update_task\<close> changes the object that \<open>get_task\<close> returned, which is the first task
  of the list with the identifier; \<open>update_first\<close> is that change of the list.
\<close>

fun update_first :: "('a \<Rightarrow> bool) \<Rightarrow> ('a \<Rightarrow> 'a) \<Rightarrow> 'a list \<Rightarrow> 'a list" where
  "update_first P f [] = []"
| "update_first P f (x # xs) = (if P x then f x # xs else x # update_first P f xs)"

definition assign_fields ::
  "string \<Rightarrow> string option \<Rightarrow> string option \<Rightarrow> string option \<Rightarrow> Task \<Rightarrow> Task" where
  "assign_fields now title' description' status' task =
     (let task = (case title' of None \<Rightarrow> task | Some t \<Rightarrow> task\<lparr>title := t\<rparr>);
          task = (case description' of None \<Rightarrow> task | Some d \<Rightarrow> task\<lparr>description := d\<rparr>);
          task = (case status' of None \<Rightarrow> task | Some st \<Rightarrow> task\<lparr>status := st\<rparr>)
      in task\<lparr>updated_at := now\<rparr>)"

definition update_task ::
  "string \<Rightarrow> int \<Rightarrow> string option \<Rightarrow> string option \<Rightarrow> string option \<Rightarrow> state
     \<Rightarrow> (bool \<times> string) \<times> state" where
  "update_task now task_id title' description' status' s =
     (case get_task s task_id of
        None \<Rightarrow> ((False, MSG_NOT_FOUND), s)
      | Some _ \<Rightarrow>
          ((True, MSG_UPDATED),
           save_tasks (s\<lparr>tasks := update_first (\<lambda>task. ident task = task_id)
                                    (assign_fields now title' description' status') (tasks s)\<rparr>)))"

definition delete_task :: "int \<Rightarrow> state \<Rightarrow> (bool \<times> string) \<times> state" where
  "delete_task task_id s =
     (case get_task s task_id of
        None \<Rightarrow> ((False, MSG_NOT_FOUND), s)
      | Some _ \<Rightarrow>
          ((True, MSG_DELETED),
           save_tasks (s\<lparr>tasks := filter (\<lambda>t. ident t \<noteq> task_id) (tasks s)\<rparr>)))"

definition filter_tasks :: "pylib \<Rightarrow> state \<Rightarrow> string option \<Rightarrow> string option \<Rightarrow> Task list" where
  "filter_tasks L s status' keyword =
     (let filtered = tasks s;
          filtered = (if truthy_str status'
                      then filter (\<lambda>task. status task = the status') filtered
                      else filtered);
          filtered = (if truthy_str keyword
                      then (let keyword_lower = str_lower L (the keyword)
                            in filter (\<lambda>task. str_in keyword_lower (str_lower L (title task))
                                            \<or> str_in keyword_lower (str_lower L (description task)))
                                 filtered)
                      else filtered)
      in filtered)"

text \<open>Sequences of the three mutating operations, each with the clock readings it sees.\<close>

datatype operation =
    Create "string \<times> string" string string
  | Update string int "string option" "string option" "string option"
  | Delete int

fun apply_operation :: "pylib \<Rightarrow> state \<Rightarrow> operation \<Rightarrow> state" where
  "apply_operation L s (Create now t d) = snd (create_task L now t d s)"
| "apply_operation L s (Update now i t d st) = snd (update_task now i t d st s)"
| "apply_operation L s (Delete i) = snd (delete_task i s)"

definition run :: "pylib \<Rightarrow> state \<Rightarrow> operation list \<Rightarrow> state" where
  "run L s ops = foldl (apply_operation L) s ops"

section \<open>The reporting module\<close>

definition STATUS_COMPLETED :: string where
  "STATUS_COMPLETED = [CHR 0xD0, CHR 0xB7, CHR 0xD0, CHR 0xB0, CHR 0xD0, CHR 0xB2, CHR 0xD0,
     CHR 0xB5, CHR 0xD1, CHR 0x80, CHR 0xD1, CHR 0x88, CHR 0xD0, CHR 0xB5, CHR 0xD0, CHR 0xBD,
     CHR 0xD0, CHR 0xBD, CHR 0xD0, CHR 0xB0, CHR 0xD1, CHR 0x8F]"

definition STATUS_UNKNOWN :: string where
  "STATUS_UNKNOWN = [CHR 0xD0, CHR 0xBD, CHR 0xD0, CHR 0xB5, CHR 0xD0, CHR 0xB8, CHR 0xD0,
     CHR 0xB7, CHR 0xD0, CHR 0xB2, CHR 0xD0, CHR 0xB5, CHR 0xD1, CHR 0x81, CHR 0xD1, CHR 0x82,
     CHR 0xD0, CHR 0xBD, CHR 0xD0, CHR 0xBE]"

definition MSG_NO_DATA :: string where
  "MSG_NO_DATA = [CHR 0xD0, CHR 0x9D, CHR 0xD0, CHR 0xB5, CHR 0xD1, CHR 0x82, CHR 0x20,
     CHR 0xD0, CHR 0xB4, CHR 0xD0, CHR 0xB0, CHR 0xD0, CHR 0xBD, CHR 0xD0, CHR 0xBD, CHR 0xD1,
     CHR 0x8B, CHR 0xD1, CHR 0x85, CHR 0x20, CHR 0xD0, CHR 0xB4, CHR 0xD0, CHR 0xBB, CHR 0xD1,
     CHR 0x8F, CHR 0x20, CHR 0xD0, CHR 0xBE, CHR 0xD1, CHR 0x82, CHR 0xD1, CHR 0x87, CHR 0xD0,
     CHR 0xB5, CHR 0xD1, CHR 0x82, CHR 0xD0, CHR 0xB0]"

definition NO_DATA_DAY :: string where
  "NO_DATA_DAY = [CHR 0xD0, CHR 0x9D, CHR 0xD0, CHR 0xB5, CHR 0xD1, CHR 0x82, CHR 0x20,
     CHR 0xD0, CHR 0xB4, CHR 0xD0, CHR 0xB0, CHR 0xD0, CHR 0xBD, CHR 0xD0, CHR 0xBD, CHR 0xD1,
     CHR 0x8B, CHR 0xD1, CHR 0x85]"

definition MSG_DATE_FORMAT :: string where
  "MSG_DATE_FORMAT = [CHR 0xD0, CHR 0x9E, CHR 0xD1, CHR 0x88, CHR 0xD0, CHR 0xB8, CHR 0xD0,
     CHR 0xB1, CHR 0xD0, CHR 0xBA, CHR 0xD0, CHR 0xB0, CHR 0x20, CHR 0xD1, CHR 0x84, CHR 0xD0,
     CHR 0xBE, CHR 0xD1, CHR 0x80, CHR 0xD0, CHR 0xBC, CHR 0xD0, CHR 0xB0, CHR 0xD1, CHR 0x82,
     CHR 0xD0, CHR 0xB0, CHR 0x20, CHR 0xD0, CHR 0xB4, CHR 0xD0, CHR 0xB0, CHR 0xD1, CHR 0x82,
     CHR 0xD1, CHR 0x8B, CHR 0x2E, CHR 0x20, CHR 0xD0, CHR 0x98, CHR 0xD1, CHR 0x81, CHR 0xD0,
     CHR 0xBF, CHR 0xD0, CHR 0xBE, CHR 0xD0, CHR 0xBB, CHR 0xD1, CHR 0x8C, CHR 0xD0, CHR 0xB7,
     CHR 0xD1, CHR 0x83, CHR 0xD0, CHR 0xB9, CHR 0xD1, CHR 0x82, CHR 0xD0, CHR 0xB5, CHR 0x20,
     CHR 0x59, CHR 0x59, CHR 0x59, CHR 0x59, CHR 0x2D, CHR 0x4D, CHR 0x4D, CHR 0x2D, CHR 0x44,
     CHR 0x44]"

text \<open>
  A snapshot is the list of task dictionaries that \<open>_load_tasks\<close> read. The expression
  \<open>datetime.fromisoformat(task.get('created_at', '2000-01-01'))\<close> raises \<open>ValueError\<close>
  on a string that is no date and \<open>TypeError\<close> on a value that is no string.
\<close>

definition task_date :: "pylib \<Rightarrow> pydict \<Rightarrow> pyerror + datetime" where
  "task_date L task =
     (case dict_get task ''created_at'' (JStr ''2000-01-01'') of
        JStr s \<Rightarrow> (case fromisoformat L s of None \<Rightarrow> Inl ValueError | Some dt \<Rightarrow> Inr dt)
      | _ \<Rightarrow> Inl TypeError)"

definition task_status :: "pydict \<Rightarrow> json" where
  \<comment> \<open>\<open>task.get('status', 'unknown')\<close>, the default being the Russian word\<close>
  "task_status task = dict_get task ''status'' (JStr STATUS_UNKNOWN)"

text \<open>
  One turn of the loop of \<open>_filter_tasks_by_date\<close>. The accumulator is the list
  \<open>filtered_tasks\<close> together with the lines printed so far; \<open>now\<close> is the clock reading
  of this turn. Only \<open>ValueError\<close> from the two bounds is caught: the line is printed
  and the task is not appended. With no truthy period and no truthy pair of bounds
  neither branch runs.
\<close>

definition filter_step ::
  "pylib \<Rightarrow> reading \<Rightarrow> int option \<Rightarrow> string option \<Rightarrow> string option \<Rightarrow> pydict
     \<Rightarrow> pydict list \<times> string list \<Rightarrow> pyerror + (pydict list \<times> string list)" where
  "filter_step L now period_days start_date end_date task acc =
     bind_result (task_date L task) (\<lambda>td.
       if truthy_int period_days then
         bind_result (sub_days (datetime_now now) (the period_days)) (\<lambda>cutoff_date.
         bind_result (dt_le cutoff_date td) (\<lambda>keep.
           Inr (if keep then (fst acc @ [task], snd acc) else acc)))
       else if truthy_str start_date \<and> truthy_str end_date then
         (case fromisoformat L (the start_date) of
            None \<Rightarrow> Inr (fst acc, snd acc @ [MSG_DATE_FORMAT])
          | Some start \<Rightarrow>
              (case fromisoformat L (the end_date) of
                 None \<Rightarrow> Inr (fst acc, snd acc @ [MSG_DATE_FORMAT])
               | Some end' \<Rightarrow>
                   bind_result (dt_le start td) (\<lambda>lo.
                     if \<not> lo then Inr acc
                     else bind_result (dt_le td end') (\<lambda>hi.
                       Inr (if hi then (fst acc @ [task], snd acc) else acc)))))
       else Inr acc)"

fun filter_loop ::
  "pylib \<Rightarrow> (nat \<Rightarrow> reading) \<Rightarrow> int option \<Rightarrow> string option \<Rightarrow> string option \<Rightarrow> nat
     \<Rightarrow> pydict list \<Rightarrow> pydict list \<times> string list \<Rightarrow> pyerror + (pydict list \<times> string list)" where
  "filter_loop L clock period_days start_date end_date k [] acc = Inr acc"
| "filter_loop L clock period_days start_date end_date k (task # rest) acc =
     (case filter_step L (clock k) period_days start_date end_date task acc of
        Inl e \<Rightarrow> Inl e
      | Inr acc' \<Rightarrow> filter_loop L clock period_days start_date end_date (Suc k) rest acc')"

text \<open>
  \<open>_filter_tasks_by_date\<close>; \<open>clock k\<close> is what \<open>datetime.now()\<close> returns in turn \<open>k\<close> of
  the loop. The result is the filtered list and the lines printed.
\<close>

definition filter_tasks_by_date ::
  "pylib \<Rightarrow> (nat \<Rightarrow> reading) \<Rightarrow> pydict list \<Rightarrow> int option \<Rightarrow> string option \<Rightarrow> string option
     \<Rightarrow> pyerror + (pydict list \<times> string list)" where
  "filter_tasks_by_date L clock tasks' period_days start_date end_date =
     filter_loop L clock period_days start_date end_date 0 tasks' ([], [])"

text \<open>
  A \<open>defaultdict(int)\<close> keeps its keys in the order of their first use;
  \<open>count_up k\<close> is \<open>d[k] += 1\<close>.
\<close>

fun count_up :: "'k \<Rightarrow> ('k \<times> nat) list \<Rightarrow> ('k \<times> nat) list" where
  "count_up k [] = [(k, 1)]"
| "count_up k ((k', n) # rest) =
     (if k = k' then (k', n + 1) # rest else (k', n) # count_up k rest)"

definition count_statuses :: "pydict list \<Rightarrow> (json \<times> nat) list" where
  "count_statuses ts = foldl (\<lambda>status_count task. count_up (task_status task) status_count) [] ts"

definition count_get :: "('k \<times> nat) list \<Rightarrow> 'k \<Rightarrow> nat \<Rightarrow> nat" where
  \<comment> \<open>\<open>d.get(k, default)\<close>\<close>
  "count_get d k dflt = (case map_of d k of None \<Rightarrow> dflt | Some n \<Rightarrow> n)"

text \<open>
  \<open>max(d.items(), key=lambda x: x[1]) if d else default\<close>: the first item whose count no
  other item exceeds.
\<close>

definition max_by_count :: "('k \<times> nat) list \<Rightarrow> 'k \<times> nat \<Rightarrow> 'k \<times> nat" where
  "max_by_count items dflt =
     (case items of [] \<Rightarrow> dflt
      | x # rest \<Rightarrow> foldl (\<lambda>best y. if snd best < snd y then y else best) x rest)"

text \<open>
  The two rates of the summary are Python floats, binary64 numbers, none of them
  negative. Such a float is modelled by the pair \<open>(m, e)\<close> of its value \<open>m * 2 ^ e\<close>,
  where \<open>2 ^ 52 \<le> m < 2 ^ 53\<close>, and zero is \<open>(0, 0)\<close>. Every operation gives the
  float nearest to its exact result, a tie going to the even \<open>m\<close>. The range of the
  exponent is not modelled: the floats of a summary are quotients of two list lengths,
  a product by 100 and the roundings of these, all far inside the range.
\<close>

type_synonym dbl = "nat \<times> int"

definition dbl_val :: "dbl \<Rightarrow> real" where
  "dbl_val x = (if 0 \<le> snd x then real (fst x) * 2 ^ nat (snd x)
                else real (fst x) / 2 ^ nat (- snd x))"

text \<open>The number of binary digits of a natural number.\<close>

fun bit_length :: "nat \<Rightarrow> nat" where
  "bit_length n = (if n = 0 then 0 else Suc (bit_length (n div 2)))"

text \<open>The fraction \<open>a / (b * 2 ^ e)\<close> as numerator and denominator.\<close>

definition scaled :: "nat \<Rightarrow> nat \<Rightarrow> int \<Rightarrow> nat \<times> nat" where
  "scaled a b e = (if 0 \<le> e then (a, b * 2 ^ nat e) else (a * 2 ^ nat (- e), b))"

text \<open>The integer nearest to \<open>a / b\<close>, the even one of two that are equally near.\<close>

definition round_half_even :: "nat \<Rightarrow> nat \<Rightarrow> nat" where
  "round_half_even a b =
     (let q = a div b; r = a mod b
      in if 2 * r < b then q else if b < 2 * r then q + 1 else if even q then q else q + 1)"

text \<open>The \<open>k\<close> with \<open>2 ^ k \<le> a / b < 2 ^ (k + 1)\<close>, for positive \<open>a\<close> and \<open>b\<close>.\<close>

definition floor_log2 :: "nat \<Rightarrow> nat \<Rightarrow> int" where
  "floor_log2 a b =
     (let k = int (bit_length a) - int (bit_length b)
      in case scaled a b k of (n, d) \<Rightarrow> if d \<le> n then k else k - 1)"

text \<open>
  The float nearest to \<open>a / b\<close>, for \<open>b > 0\<close>: the true division \<open>a / b\<close> of two Python
  integers, and the reading of a decimal such as \<open>66.67\<close>, which is \<open>6667 / 100\<close>.
\<close>

definition dbl_round :: "nat \<Rightarrow> nat \<Rightarrow> dbl" where
  "dbl_round a b =
     (if a = 0 then (0, 0)
      else let e = floor_log2 a b - 52
           in case scaled a b e of (n, d) \<Rightarrow>
                let m = round_half_even n d
                in if m = 2 ^ 53 then (2 ^ 52, e + 1) else (m, e))"

text \<open>\<open>x * k\<close> for a float \<open>x\<close> and a small integer \<open>k\<close>, such as \<open>x * 100\<close>.\<close>

definition dbl_times :: "dbl \<Rightarrow> nat \<Rightarrow> dbl" where
  "dbl_times x k = (case scaled (fst x * k) 1 (- snd x) of (n, d) \<Rightarrow> dbl_round n d)"

text \<open>
  \<open>round(x, 2)\<close> on a float: CPython writes the exact value of \<open>x\<close> with two decimals,
  rounding half to even, and reads the decimal back as a float.
\<close>

definition py_round2 :: "dbl \<Rightarrow> dbl" where
  "py_round2 x =
     (case scaled (fst x * 100) 1 (- snd x) of
        (n, d) \<Rightarrow> dbl_round (round_half_even n d) 100)"

text \<open>A Python number of a report: an \<open>int\<close> or a float. \<open>round(n, 2)\<close> of an \<open>int\<close> is \<open>n\<close>.\<close>

datatype pynum = PyInt int | PyFloat dbl

definition py_round :: "pynum \<Rightarrow> pynum" where
  "py_round x = (case x of PyInt n \<Rightarrow> PyInt n | PyFloat d \<Rightarrow> PyFloat (py_round2 d))"

text \<open>A report is the dictionary \<open>{"error": message}\<close> or the dictionary of its kind.\<close>

datatype 'a report = NoData string | Report 'a

record summary =
  period :: string
  total_tasks :: nat
  status_distribution :: "(json \<times> nat) list"
  completion_rate :: pynum
  most_active_day :: "string \<times> nat"
  average_tasks_per_day :: pynum

definition period_map :: "string \<Rightarrow> int option" where
  "period_map = map_of [(''today'', 1), (''week'', 7), (''month'', 30)]"

text \<open>The tasks a summary is computed from: \<open>filtered_tasks\<close> of the source.\<close>

definition summary_scope ::
  "pylib \<Rightarrow> (nat \<Rightarrow> reading) \<Rightarrow> pydict list \<Rightarrow> string
     \<Rightarrow> pyerror + (pydict list \<times> string list)" where
  "summary_scope L clock tasks' period' =
     (case period_map period' of
        Some n \<Rightarrow> filter_tasks_by_date L clock tasks' (Some n) None None
      | None \<Rightarrow> Inr (tasks', []))"

definition count_days :: "pylib \<Rightarrow> datetime list \<Rightarrow> (string \<times> nat) list" where
  "count_days L dates =
     foldl (\<lambda>tasks_by_day dt. count_up (strftime_ymd L (ordinal dt)) tasks_by_day) [] dates"

definition generate_summary_report ::
  "pylib \<Rightarrow> (nat \<Rightarrow> reading) \<Rightarrow> pydict list \<Rightarrow> string
     \<Rightarrow> pyerror + (summary report \<times> string list)" where
  "generate_summary_report L clock tasks' period' =
     (if tasks' = [] then Inr (NoData MSG_NO_DATA, [])
      else
        bind_result (summary_scope L clock tasks' period') (\<lambda>(filtered_tasks, out).
          let total = length filtered_tasks;
              status_count = count_statuses filtered_tasks;
              completed = count_get status_count (JStr STATUS_COMPLETED) 0;
              rate = (if 0 < total then PyFloat (dbl_times (dbl_round completed total) 100)
                      else PyInt 0)
          in bind_result (traverse (task_date L) filtered_tasks) (\<lambda>dates.
               let tasks_by_day = count_days L dates
               in Inr (Report
                    \<lparr>period = period',
                     total_tasks = total,
                     status_distribution = status_count,
                     completion_rate = py_round rate,
                     most_active_day = max_by_count tasks_by_day (NO_DATA_DAY, 0),
                     average_tasks_per_day =
                       (if tasks_by_day \<noteq> []
                        then PyFloat (py_round2 (dbl_round total (length tasks_by_day)))
                        else PyInt 0)\<rparr>, out))))"

record timeline_entry =
  entry_date :: string
  entry_total_tasks :: nat
  entry_statuses :: "(json \<times> nat) list"

record timeline_report =
  period_days :: int
  timeline :: "timeline_entry list"

text \<open>
  The comprehension \<open>daily_tasks\<close>: the tasks whose \<open>created_at\<close> has the date with day
  number \<open>d\<close>; the first \<open>created_at\<close> that does not parse raises.
\<close>

fun daily_tasks :: "pylib \<Rightarrow> int \<Rightarrow> pydict list \<Rightarrow> pyerror + pydict list" where
  "daily_tasks L d [] = Inr []"
| "daily_tasks L d (task # rest) =
     (case task_date L task of
        Inl e \<Rightarrow> Inl e
      | Inr dt \<Rightarrow>
          (case daily_tasks L d rest of
             Inl e \<Rightarrow> Inl e
           | Inr ys \<Rightarrow> Inr (if ordinal dt = d then task # ys else ys)))"

definition timeline_day :: "pylib \<Rightarrow> pydict list \<Rightarrow> datetime \<Rightarrow> int \<Rightarrow> pyerror + timeline_entry" where
  "timeline_day L tasks' start_date i =
     bind_result (add_days start_date i) (\<lambda>current_date.
     bind_result (daily_tasks L (ordinal current_date) tasks') (\<lambda>daily.
       Inr \<lparr>entry_date = strftime_ymd L (ordinal current_date),
            entry_total_tasks = length daily,
            entry_statuses = count_statuses daily\<rparr>))"

definition generate_timeline_report ::
  "pylib \<Rightarrow> reading \<Rightarrow> pydict list \<Rightarrow> int \<Rightarrow> pyerror + timeline_report report" where
  "generate_timeline_report L now tasks' days =
     (if tasks' = [] then Inr (NoData MSG_NO_DATA)
      else
        bind_result (sub_days (datetime_now now) days) (\<lambda>start_date.
        bind_result (traverse (timeline_day L tasks' start_date) [0..days]) (\<lambda>timeline_data.
          Inr (Report \<lparr>period_days = days, timeline = timeline_data\<rparr>))))"

section \<open>A library instance for concrete runs\<close>

text \<open>
  An instance of the library parameters that agrees with CPython on ASCII text and on
  the few date strings and dates listed; 2024-01-15 has the day number 738900.
\<close>

definition ascii_lower :: "string \<Rightarrow> string" where
  "ascii_lower s =
     map (\<lambda>c. case map_of (zip ''ABCDEFGHIJKLMNOPQRSTUVWXYZ'' ''abcdefghijklmnopqrstuvwxyz'') c of
                Some l \<Rightarrow> l | None \<Rightarrow> c) s"

definition ascii_space :: "char \<Rightarrow> bool" where
  "ascii_space c =
     (c \<in> set [CHR 0x20, CHR 0x09, CHR 0x0A, CHR 0x0B, CHR 0x0C, CHR 0x0D,
                CHR 0x1C, CHR 0x1D, CHR 0x1E, CHR 0x1F])"

definition ascii_strip :: "string \<Rightarrow> string" where
  "ascii_strip s = rev (dropWhile ascii_space (rev (dropWhile ascii_space s)))"

definition example_dates :: "(string \<times> datetime) list" where
  "example_dates =
     [(''2024-01-13T09:30:00'', \<lparr>ordinal = 738898, micros = 34200000000, utcoffset = None\<rparr>),
      (''2024-01-15T08:00:00'', \<lparr>ordinal = 738900, micros = 28800000000, utcoffset = None\<rparr>),
      (''2024-01-15T10:00:00'', \<lparr>ordinal = 738900, micros = 36000000000, utcoffset = None\<rparr>),
      (''2024-01-15T17:45:00'', \<lparr>ordinal = 738900, micros = 63900000000, utcoffset = None\<rparr>),
      (''2023-06-01T12:00:00'', \<lparr>ordinal = 738672, micros = 43200000000, utcoffset = None\<rparr>),
      (''2023-06-01T12:00:00+00:00'',
         \<lparr>ordinal = 738672, micros = 43200000000, utcoffset = Some 0\<rparr>),
      (''2024-12-31'', \<lparr>ordinal = 739251, micros = 0, utcoffset = None\<rparr>),
      (''2000-01-01'', \<lparr>ordinal = 730120, micros = 0, utcoffset = None\<rparr>)]"

definition example_days :: "(int \<times> string) list" where
  "example_days =
     [(738898, ''2024-01-13''), (738899, ''2024-01-14''), (738900, ''2024-01-15''),
      (738672, ''2023-06-01''), (730120, ''2000-01-01'')]"

definition example_lib :: pylib where
  "example_lib =
     \<lparr>str_strip = ascii_strip,
      str_lower = ascii_lower,
      fromisoformat = map_of example_dates,
      strftime_ymd = (\<lambda>d. case map_of example_days d of Some s \<Rightarrow> s | None \<Rightarrow> ''?'')\<rparr>"

text \<open>A clock that stands at noon of 2024-01-15.\<close>

definition example_clock :: "nat \<Rightarrow> reading" where
  "example_clock k = (738900, 43200000000)"

definition example_now :: "string \<times> string" where
  "example_now = (''2024-01-15T10:00:00'', ''2024-01-15T10:00:00'')"

text \<open>Three tasks, with ASCII status labels: an active and a completed "fix bug", and a
  completed "other".\<close>

definition bug_tasks :: "Task list" where
  "bug_tasks =
     [\<lparr>ident = 1, title = ''fix bug'', description = [], status = ''active'',
       created_at = ''2024-01-15T08:00:00'', updated_at = ''2024-01-15T08:00:00''\<rparr>,
      \<lparr>ident = 2, title = ''fix bug'', description = [], status = ''completed'',
       created_at = ''2024-01-15T10:00:00'', updated_at = ''2024-01-15T10:00:00''\<rparr>,
      \<lparr>ident = 3, title = ''other'', description = [], status = ''completed'',
       created_at = ''2024-01-15T17:45:00'', updated_at = ''2024-01-15T17:45:00''\<rparr>]"

definition bug_store :: state where
  "bug_store = \<lparr>tasks = bug_tasks, tasks_file = Doc (map to_dict bug_tasks)\<rparr>"

text \<open>A store whose only task was last updated, by its record, in the year 2030.\<close>

definition late_task :: Task where
  "late_task =
     \<lparr>ident = 1, title = ''report'', description = ''quarterly'', status = ''active'',
      created_at = ''2024-01-13T09:30:00'', updated_at = ''2030-01-01T00:00:00''\<rparr>"

definition late_store :: state where
  "late_store = \<lparr>tasks = [late_task], tasks_file = Doc [to_dict late_task]\<rparr>"

text \<open>The store of a \<open>TaskManager\<close> started without a file.\<close>

definition empty_store :: state where
  "empty_store = \<lparr>tasks = [], tasks_file = Absent\<rparr>"

section \<open>Notions used to state the properties of the store\<close>

text \<open>
  Every \<open>Task\<close> object has non-empty timestamps: \<open>isoformat()\<close> is never empty, and
  the constructor replaces an empty timestamp by a clock reading.
\<close>

definition stamped :: "Task \<Rightarrow> bool" where
  "stamped task = (created_at task \<noteq> [] \<and> updated_at task \<noteq> [])"

definition reading_ok :: "string \<times> string \<Rightarrow> bool" where
  "reading_ok now = (fst now \<noteq> [] \<and> snd now \<noteq> [])"

fun operation_ok :: "operation \<Rightarrow> bool" where
  "operation_ok (Create now t d) = reading_ok now"
| "operation_ok (Update now i t d st) = (now \<noteq> [])"
| "operation_ok (Delete i) = True"

section \<open>Notions used to state the properties of the reports\<close>

text \<open>The \<open>created_at\<close> of a task can be read as a date.\<close>

definition parses :: "pylib \<Rightarrow> pydict \<Rightarrow> bool" where
  "parses L task = (case task_date L task of Inl _ \<Rightarrow> False | Inr _ \<Rightarrow> True)"

text \<open>The \<open>created_at\<close> of a task falls on the calendar day with number \<open>d\<close>.\<close>

definition on_day :: "pylib \<Rightarrow> int \<Rightarrow> pydict \<Rightarrow> bool" where
  "on_day L d task = (case task_date L task of Inl _ \<Rightarrow> False | Inr dt \<Rightarrow> ordinal dt = d)"

text \<open>
  The \<open>created_at\<close> of a task is not earlier than \<open>n\<close> days before the clock reading
  \<open>now\<close>: the task is in range of a period of \<open>n\<close> days.
\<close>

definition in_period :: "pylib \<Rightarrow> reading \<Rightarrow> int \<Rightarrow> pydict \<Rightarrow> bool" where
  "in_period L now n task =
     (case task_date L task of
        Inl _ \<Rightarrow> False
      | Inr td \<Rightarrow> instant (datetime_now now) - n * 86400000000 \<le> instant td)"

text \<open>The number of tasks whose status is exactly the label "completed" of the source.\<close>

definition completed_count :: "pydict list \<Rightarrow> nat" where
  "completed_count ts = length (filter (\<lambda>task. task_status task = JStr STATUS_COMPLETED) ts)"

text \<open>
  Snapshots for concrete runs: three tasks of 2024-01-15, two of them completed; one
  task of 2024-01-13 and two of 2024-01-15; one task of June 2023.
\<close>

definition day_snapshot :: "pydict list" where
  "day_snapshot =
     [[(''id'', JInt 1), (''title'', JStr ''a''), (''status'', JStr STATUS_COMPLETED),
       (''created_at'', JStr ''2024-01-15T08:00:00'')],
      [(''id'', JInt 2), (''title'', JStr ''b''), (''status'', JStr STATUS_ACTIVE),
       (''created_at'', JStr ''2024-01-15T10:00:00'')],
      [(''id'', JInt 3), (''title'', JStr ''c''), (''status'', JStr STATUS_COMPLETED),
       (''created_at'', JStr ''2024-01-15T17:45:00'')]]"

definition sparse_snapshot :: "pydict list" where
  "sparse_snapshot =
     [[(''id'', JInt 1), (''title'', JStr ''a''), (''status'', JStr STATUS_ACTIVE),
       (''created_at'', JStr ''2024-01-13T09:30:00'')],
      [(''id'', JInt 2), (''title'', JStr ''b''), (''status'', JStr STATUS_ACTIVE),
       (''created_at'', JStr ''2024-01-15T08:00:00'')],
      [(''id'', JInt 3), (''title'', JStr ''c''), (''status'', JStr STATUS_COMPLETED),
       (''created_at'', JStr ''2024-01-15T10:00:00'')]]"

definition old_snapshot :: "pydict list" where
  "old_snapshot =
     [[(''id'', JInt 1), (''title'', JStr ''a''), (''status'', JStr STATUS_ACTIVE),
       (''created_at'', JStr ''2023-06-01T12:00:00'')]]"

text \<open>
  One task whose \<open>created_at\<close> is no date; one task of June 2023 whose \<open>created_at\<close>
  carries a UTC offset; 160 tasks of 2024-01-15 of which 23 are completed.
\<close>

definition garbage_snapshot :: "pydict list" where
  "garbage_snapshot =
     [[(''id'', JInt 1), (''title'', JStr ''a''), (''status'', JStr STATUS_ACTIVE),
       (''created_at'', JStr ''garbage'')]]"

definition aware_snapshot :: "pydict list" where
  "aware_snapshot =
     [[(''id'', JInt 1), (''title'', JStr ''a''), (''status'', JStr STATUS_ACTIVE),
       (''created_at'', JStr ''2023-06-01T12:00:00+00:00'')]]"

definition skew_snapshot :: "pydict list" where
  "skew_snapshot =
     replicate 23 [(''id'', JInt 1), (''title'', JStr ''a''), (''status'', JStr STATUS_COMPLETED),
                   (''created_at'', JStr ''2024-01-15T08:00:00'')] @
     replicate 137 [(''id'', JInt 2), (''title'', JStr ''b''), (''status'', JStr STATUS_ACTIVE),
                    (''created_at'', JStr ''2024-01-15T10:00:00'')]"

text \<open>The completion rate of the summary that was returned, if one was.\<close>

definition rate_of :: "pyerror + (summary report \<times> string list) \<Rightarrow> pynum option" where
  "rate_of res =
     (case res of
        Inr (Report r, out) \<Rightarrow> Some (completion_rate r)
      | _ \<Rightarrow> None)"

section \<open>Properties of the task store\<close>

lemma get_task_None_iff: "get_task s i = None \<longleftrightarrow> i \<notin> ident ` set (tasks s)"
  by (auto simp: get_task_def find_None_iff)

subsection \<open>Identifiers\<close>

lemma py_max_Cons: "py_max (x # xs) d = Max (set (x # xs))"
  unfolding py_max_def Max.set_eq_fold by simp

lemma py_max_ge: "x \<in> set xs \<Longrightarrow> x \<le> py_max xs d"
  by (cases xs) (auto simp: py_max_Cons)

lemma ident_assign_fields [simp]: "ident (assign_fields now t d st task) = ident task"
  by (simp add: assign_fields_def Let_def split: option.splits)

lemma map_ident_update_first:
  "(\<And>x. ident (f x) = ident x) \<Longrightarrow> map ident (update_first P f xs) = map ident xs"
  by (induction xs) auto

lemma tasks_save [simp]: "tasks (save_tasks s) = tasks s"
  by (simp add: save_tasks_def)

lemma ids_create:
  "map ident (tasks (snd (create_task L now t d s))) =
     (if str_strip L t = [] then map ident (tasks s)
      else map ident (tasks s) @ [py_max (map ident (tasks s)) 0 + 1])"
  by (simp add: create_task_def Let_def Task_init_def)

lemma ids_update:
  "map ident (tasks (snd (update_task now i t d st s))) = map ident (tasks s)"
  by (simp add: update_task_def map_ident_update_first split: option.splits)

lemma ids_delete:
  "map ident (tasks (snd (delete_task i s))) =
     (if i \<in> ident ` set (tasks s) then filter (\<lambda>j. j \<noteq> i) (map ident (tasks s))
      else map ident (tasks s))"
  using get_task_None_iff [of s i]
  by (cases "get_task s i") (auto simp: delete_task_def filter_map comp_def)

lemma fresh_id: "j \<in> set ids \<Longrightarrow> j < py_max ids 0 + 1"
  using py_max_ge [of j ids 0] by simp

lemma distinct_apply_operation:
  "distinct (map ident (tasks s)) \<Longrightarrow> distinct (map ident (tasks (apply_operation L s op)))"
proof (cases op)
  case (Create now t d)
  then show "distinct (map ident (tasks s)) \<Longrightarrow> ?thesis"
    using fresh_id [of "py_max (map ident (tasks s)) 0 + 1" "map ident (tasks s)"]
    by (auto simp: ids_create)
next
  case (Update now i t d st)
  then show "distinct (map ident (tasks s)) \<Longrightarrow> ?thesis" by (simp add: ids_update)
next
  case (Delete i)
  then show "distinct (map ident (tasks s)) \<Longrightarrow> ?thesis" by (simp add: ids_delete)
qed

lemma distinct_run:
  "distinct (map ident (tasks s)) \<Longrightarrow> distinct (map ident (tasks (run L s ops)))"
  unfolding run_def
  by (induction ops arbitrary: s) (simp_all add: distinct_apply_operation)


lemma create_result:
  "str_strip L t \<noteq> [] \<Longrightarrow>
     fst (create_task L now t d s) =
       (Some (Task_init now (py_max (map ident (tasks s)) 0 + 1) t d STATUS_ACTIVE None None),
        MSG_CREATED)"
  by (simp add: create_task_def Let_def)

lemma create_refused:
  "str_strip L t = [] \<Longrightarrow> create_task L now t d s = ((None, MSG_EMPTY_TITLE), s)"
  by (simp add: create_task_def)

text \<open>
  C1, as the code has it: on a store whose identifiers are pairwise different (such as
  the empty one), every sequence of create, update and delete operations leaves the
  identifiers of the live tasks pairwise different, and a create that succeeds assigns
  the greatest live identifier plus one (1 on an empty store), which is greater than
  the identifier of every live task. Nothing keeps an identifier from coming back once
  no live task has it or a greater one.
\<close>

theorem ids_unique_and_fresh:
  assumes "distinct (map ident (tasks s))"
  shows "distinct (map ident (tasks (run L s ops))) \<and>
         (\<forall>task msg s'. create_task L now t d (run L s ops) = ((Some task, msg), s') \<longrightarrow>
            ident task = py_max (map ident (tasks (run L s ops))) 0 + 1 \<and>
            (\<forall>x\<in>set (tasks (run L s ops)). ident x < ident task))"
proof -
  have "ident task = py_max (map ident (tasks s1)) 0 + 1 \<and> (\<forall>x\<in>set (tasks s1). ident x < ident task)"
    if "create_task L now t d s1 = ((Some task, msg), s')" for s1 task msg s'
  proof -
    have ok: "str_strip L t \<noteq> []"
      using that create_refused [of L t now d s1] by auto
    then have eq: "ident task = py_max (map ident (tasks s1)) 0 + 1"
      using that create_result [of L t now d s1] by (simp add: Task_init_def)
    moreover have "ident x < py_max (map ident (tasks s1)) 0 + 1" if "x \<in> set (tasks s1)" for x
      using that fresh_id [of "ident x" "map ident (tasks s1)"] by simp
    ultimately show ?thesis by simp
  qed
  then show ?thesis
    using distinct_run [OF assms, of L ops] by blast
qed

theorem ids_unique_and_fresh_witness:
  "distinct (map ident (tasks empty_store)) \<and>
   distinct (map ident (tasks (run example_lib empty_store
      [Create example_now ''A'' [], Create example_now ''B'' [], Delete 1]))) \<and>
   fst (create_task example_lib example_now ''C'' []
      (run example_lib empty_store
         [Create example_now ''A'' [], Create example_now ''B'' [], Delete 1])) =
     (Some \<lparr>ident = 3, title = ''C'', description = [], status = STATUS_ACTIVE,
            created_at = ''2024-01-15T10:00:00'', updated_at = ''2024-01-15T10:00:00''\<rparr>,
      MSG_CREATED)"
proof -
  have d: "distinct (map ident (tasks empty_store))"
    by (simp add: empty_store_def)
  have c: "fst (create_task example_lib example_now ''C'' []
      (run example_lib empty_store
         [Create example_now ''A'' [], Create example_now ''B'' [], Delete 1])) =
     (Some \<lparr>ident = 3, title = ''C'', description = [], status = STATUS_ACTIVE,
            created_at = ''2024-01-15T10:00:00'', updated_at = ''2024-01-15T10:00:00''\<rparr>,
      MSG_CREATED)"
    by (simp add: run_def create_task_def delete_task_def get_task_def save_tasks_def
          empty_store_def example_lib_def example_now_def ascii_strip_def ascii_space_def
          py_max_def Task_init_def py_or_def Let_def)
  show ?thesis
    using d c ids_unique_and_fresh [OF d, of example_lib
        "[Create example_now ''A'' [], Create example_now ''B'' [], Delete 1]"]
    by blast
qed

text \<open>
  C1 as stated fails: after the tasks "A" and "B" got the identifiers 1 and 2 and the task
  with identifier 2 was deleted, the next create assigns 2 again, to the task "C".
\<close>

theorem deleted_id_assigned_again:
  "map ident (tasks (run example_lib empty_store
      [Create example_now ''A'' [], Create example_now ''B'' []])) = [1, 2] \<and>
   map title (tasks (run example_lib empty_store
      [Create example_now ''A'' [], Create example_now ''B'' []])) = [''A'', ''B''] \<and>
   map ident (tasks (run example_lib empty_store
      [Create example_now ''A'' [], Create example_now ''B'' [], Delete 2])) = [1] \<and>
   map ident (tasks (run example_lib empty_store
      [Create example_now ''A'' [], Create example_now ''B'' [], Delete 2,
       Create example_now ''C'' []])) = [1, 2] \<and>
   map title (tasks (run example_lib empty_store
      [Create example_now ''A'' [], Create example_now ''B'' [], Delete 2,
       Create example_now ''C'' []])) = [''A'', ''C'']"
  by (simp add: run_def create_task_def delete_task_def get_task_def save_tasks_def
        empty_store_def example_lib_def example_now_def ascii_strip_def ascii_space_def
        py_max_def Task_init_def py_or_def Let_def)

subsection \<open>Saving and loading\<close>

lemma stamped_Task_init:
  "reading_ok now \<Longrightarrow> stamped (Task_init now i t d st c u)"
  by (simp add: stamped_def reading_ok_def Task_init_def py_or_def split: option.splits)

lemma stamped_assign_fields:
  "now \<noteq> [] \<Longrightarrow> stamped task \<Longrightarrow> stamped (assign_fields now t d st task)"
  by (simp add: stamped_def assign_fields_def Let_def split: option.splits)

lemma list_all_update_first:
  "(\<And>x. Q x \<Longrightarrow> Q (f x)) \<Longrightarrow> list_all Q xs \<Longrightarrow> list_all Q (update_first P f xs)"
  by (induction xs) auto

lemma stamped_apply_operation:
  "operation_ok op \<Longrightarrow> list_all stamped (tasks s) \<Longrightarrow>
     list_all stamped (tasks (apply_operation L s op))"
proof (cases op)
  case (Create now t d)
  then show "operation_ok op \<Longrightarrow> list_all stamped (tasks s) \<Longrightarrow> ?thesis"
    by (simp add: create_task_def Let_def stamped_Task_init)
next
  case (Update now i t d st)
  then show "operation_ok op \<Longrightarrow> list_all stamped (tasks s) \<Longrightarrow> ?thesis"
    by (simp add: update_task_def list_all_update_first stamped_assign_fields
          split: option.splits)
next
  case (Delete i)
  then show "operation_ok op \<Longrightarrow> list_all stamped (tasks s) \<Longrightarrow> ?thesis"
    by (simp add: delete_task_def list_all_iff split: option.splits)
qed

lemma stamped_run:
  "list_all operation_ok ops \<Longrightarrow> list_all stamped (tasks s) \<Longrightarrow>
     list_all stamped (tasks (run L s ops))"
  unfolding run_def
  by (induction ops arbitrary: s) (simp_all add: stamped_apply_operation)

lemma stamped_from_dict:
  "reading_ok now \<Longrightarrow> from_dict now data = Inr task \<Longrightarrow> stamped task"
  by (auto simp: from_dict_def bind_result_def stamped_Task_init split: sum.splits)

lemma stamped_traverse:
  "\<forall>k. reading_ok (rd k) \<Longrightarrow>
     traverse (\<lambda>(k, task). from_dict (rd k) task) kds = Inr ts \<Longrightarrow> list_all stamped ts"
proof (induction kds arbitrary: ts)
  case Nil
  then show ?case by simp
next
  case (Cons kd kds)
  obtain k data where kd: "kd = (k, data)" by (cases kd)
  from Cons.prems(2) kd obtain task rest where
    parts: "from_dict (rd k) data = Inr task"
      "traverse (\<lambda>(k, task). from_dict (rd k) task) kds = Inr rest" "ts = task # rest"
    by (auto split: sum.splits)
  have "stamped task"
    using Cons.prems(1) parts(1) stamped_from_dict by blast
  moreover have "list_all stamped rest"
    using Cons.IH Cons.prems(1) parts(2) by blast
  ultimately show ?case using parts(3) by simp
qed

lemma stamped_TaskManager_init:
  assumes "\<forall>k. reading_ok (rd k)" and "TaskManager_init rd f = Inr s"
  shows "list_all stamped (tasks s)"
proof (cases f)
  case (Doc tasks_data)
  with assms(2) obtain ts where
    "traverse (\<lambda>(k, task). from_dict (rd k) task) (enumerate 0 tasks_data) = Inr ts"
    "tasks s = ts"
    by (auto simp: TaskManager_init_def load_tasks_def bind_result_def split: sum.splits)
  then show ?thesis using assms(1) stamped_traverse by blast
qed (use assms(2) in \<open>auto simp: TaskManager_init_def load_tasks_def\<close>)

lemma from_dict_to_dict: "stamped task \<Longrightarrow> from_dict now (to_dict task) = Inr task"
  by (simp add: from_dict_def to_dict_def dict_item_def dict_get_def bind_result_def
        as_int_def as_str_def as_str_opt_def Task_init_def py_or_def stamped_def)

lemma traverse_to_dict:
  "list_all stamped ts \<Longrightarrow>
     traverse (\<lambda>(k, task). from_dict (rd k) task) (enumerate n (map to_dict ts)) = Inr ts"
  by (induction ts arbitrary: n) (simp_all add: from_dict_to_dict)

lemma load_saved:
  "list_all stamped (tasks s) \<Longrightarrow>
     TaskManager_init rd (tasks_file (save_tasks s)) = Inr (save_tasks s)"
  by (simp add: TaskManager_init_def load_tasks_def save_tasks_def bind_result_def
        traverse_to_dict)

lemma stamped_create:
  "reading_ok now \<Longrightarrow> list_all stamped (tasks s) \<Longrightarrow>
     list_all stamped (tasks (snd (create_task L now t d s)))"
  using stamped_apply_operation [of "Create now t d" s L] by simp

text \<open>
  C6: take any store that a \<open>TaskManager\<close> reaches, from whatever file it was started
  on and by whatever operations. After a create and a save, a fresh \<open>TaskManager\<close> on
  the same file holds the same list of tasks, equal field for field and in the same
  order (two \<open>Task\<close> records are equal when their six fields are). The clock readings
  \<open>isoformat()\<close> returns are non-empty strings.
\<close>

theorem save_load_round_trip:
  assumes "TaskManager_init rd0 f = Inr s0"
    and "\<forall>k. reading_ok (rd0 k)"
    and "list_all operation_ok ops"
    and "reading_ok now"
  shows "TaskManager_init rd
           (tasks_file (save_tasks (snd (create_task L now t d (run L s0 ops))))) =
         Inr (save_tasks (snd (create_task L now t d (run L s0 ops)))) \<and>
         tasks (save_tasks (snd (create_task L now t d (run L s0 ops)))) =
         tasks (snd (create_task L now t d (run L s0 ops)))"
proof -
  have "list_all stamped (tasks s0)"
    using assms(1,2) stamped_TaskManager_init by blast
  then have "list_all stamped (tasks (run L s0 ops))"
    using assms(3) by (rule stamped_run [rotated])
  then have "list_all stamped (tasks (snd (create_task L now t d (run L s0 ops))))"
    using assms(4) by (rule stamped_create [rotated])
  then show ?thesis
    by (simp add: load_saved)
qed

theorem save_load_round_trip_witness:
  "TaskManager_init (\<lambda>k. example_now) (tasks_file bug_store) = Inr bug_store \<and>
   (\<forall>k. reading_ok ((\<lambda>k. example_now) k)) \<and>
   list_all operation_ok [Delete 1, Update ''2024-01-15T17:45:00'' 3 None None (Some ''active'')] \<and>
   reading_ok example_now \<and>
   map_sum id tasks (TaskManager_init (\<lambda>k. example_now)
      (tasks_file (save_tasks (snd (create_task example_lib example_now ''new'' ''task''
         (run example_lib bug_store
            [Delete 1, Update ''2024-01-15T17:45:00'' 3 None None (Some ''active'')])))))) =
   Inr (tasks (snd (create_task example_lib example_now ''new'' ''task''
         (run example_lib bug_store
            [Delete 1, Update ''2024-01-15T17:45:00'' 3 None None (Some ''active'')]))))"
proof -
  have a: "TaskManager_init (\<lambda>k. example_now) (tasks_file bug_store) = Inr bug_store"
    by (simp add: TaskManager_init_def load_tasks_def bug_store_def bug_tasks_def
          bind_result_def from_dict_def to_dict_def dict_item_def dict_get_def as_int_def
          as_str_def as_str_opt_def Task_init_def py_or_def enumerate_eq_zip)
  have b: "\<forall>k. reading_ok ((\<lambda>k. example_now) k)" "reading_ok example_now"
    by (simp_all add: reading_ok_def example_now_def)
  have c: "list_all operation_ok
      [Delete 1, Update ''2024-01-15T17:45:00'' 3 None None (Some ''active'')]"
    by simp
  show ?thesis
    using a b c save_load_round_trip [OF a b(1) c b(2), of "\<lambda>k. example_now" example_lib
        "''new''" "''task''"]
    by simp
qed

subsection \<open>Filtering\<close>

text \<open>\<open>str_in\<close> is the substring test.\<close>

lemma str_in_iff: "str_in xs ys \<longleftrightarrow> (\<exists>p q. ys = p @ xs @ q)"
proof (induction ys)
  case Nil
  then show ?case by simp
next
  case (Cons y ys)
  show ?case
  proof
    assume "str_in xs (y # ys)"
    then consider "take (length xs) (y # ys) = xs" | "str_in xs ys" by auto
    then show "\<exists>p q. y # ys = p @ xs @ q"
    proof cases
      case 1
      then have "y # ys = [] @ xs @ drop (length xs) (y # ys)"
        by (metis append_Nil append_take_drop_id)
      then show ?thesis by blast
    next
      case 2
      then obtain p q where "ys = p @ xs @ q" using Cons.IH by blast
      then have "y # ys = (y # p) @ xs @ q" by simp
      then show ?thesis by blast
    qed
  next
    assume "\<exists>p q. y # ys = p @ xs @ q"
    then obtain p q where pq: "y # ys = p @ xs @ q" by blast
    show "str_in xs (y # ys)"
    proof (cases p)
      case Nil
      with pq have "take (length xs) (y # ys) = xs" by simp
      then show ?thesis by simp
    next
      case (Cons a p')
      with pq have "ys = p' @ xs @ q" by simp
      then have "str_in xs ys" using Cons.IH by blast
      then show ?thesis by simp
    qed
  qed
qed

text \<open>
  C7, as the code has it: with a non-empty status and a keyword, \<open>filter_tasks\<close> returns
  the tasks whose status is the given one and whose lower-cased title or description
  contains the lower-cased keyword, in the order of the store's list. An empty keyword
  selects every task, as the empty string occurs in every string.
\<close>

theorem filter_status_and_keyword:
  "st \<noteq> [] \<Longrightarrow>
     filter_tasks L s (Some st) (Some kw) =
       filter (\<lambda>task. status task = st \<and>
                 (kw = [] \<or> str_in (str_lower L kw) (str_lower L (title task))
                          \<or> str_in (str_lower L kw) (str_lower L (description task))))
              (tasks s)"
  by (simp add: filter_tasks_def truthy_str_def Let_def conj_commute)


theorem filter_status_and_keyword_witness:
  "''completed'' \<noteq> [] \<and>
   filter_tasks example_lib bug_store (Some ''completed'') (Some ''BUG'') =
     [\<lparr>ident = 2, title = ''fix bug'', description = [], status = ''completed'',
       created_at = ''2024-01-15T10:00:00'', updated_at = ''2024-01-15T10:00:00''\<rparr>]"
  using filter_status_and_keyword [of "''completed''" example_lib bug_store "''BUG''"]
  by (simp add: bug_store_def bug_tasks_def example_lib_def ascii_lower_def)

text \<open>
  C7 as stated fails for the empty status: the code takes it for no status at all and
  returns both tasks that mention the keyword, though the status of neither is the
  empty string.
\<close>

theorem empty_status_not_filtered:
  "filter_tasks example_lib bug_store (Some []) (Some ''bug'') =
     [\<lparr>ident = 1, title = ''fix bug'', description = [], status = ''active'',
       created_at = ''2024-01-15T08:00:00'', updated_at = ''2024-01-15T08:00:00''\<rparr>,
      \<lparr>ident = 2, title = ''fix bug'', description = [], status = ''completed'',
       created_at = ''2024-01-15T10:00:00'', updated_at = ''2024-01-15T10:00:00''\<rparr>] \<and>
   filter (\<lambda>task. status task = []) (tasks bug_store) = []"
  by (simp add: filter_tasks_def truthy_str_def Let_def bug_store_def bug_tasks_def
        example_lib_def ascii_lower_def)

subsection \<open>Updating and deleting\<close>

lemma update_first_split:
  "find P xs = Some x \<Longrightarrow>
     \<exists>pre post. xs = pre @ x # post \<and> (\<forall>y\<in>set pre. \<not> P y) \<and>
                update_first P f xs = pre @ f x # post"
proof (induction xs)
  case Nil
  then show ?case by simp
next
  case (Cons a xs)
  show ?case
  proof (cases "P a")
    case True
    with Cons.prems have "a = x" by simp
    with True have "a # xs = [] @ x # xs \<and> (\<forall>y\<in>set []. \<not> P y) \<and>
        update_first P f (a # xs) = [] @ f x # xs" by simp
    then show ?thesis by blast
  next
    case False
    with Cons.prems have "find P xs = Some x" by simp
    then obtain pre post where
      "xs = pre @ x # post" "\<forall>y\<in>set pre. \<not> P y" "update_first P f xs = pre @ f x # post"
      using Cons.IH by blast
    with False have "a # xs = (a # pre) @ x # post \<and> (\<forall>y\<in>set (a # pre). \<not> P y) \<and>
        update_first P f (a # xs) = (a # pre) @ f x # post" by simp
    then show ?thesis by blast
  qed
qed

text \<open>
  C8, as the code has it: when the store has a task with the identifier, \<open>update_task\<close>
  succeeds and changes one task only, the first with that identifier. Of this task the
  fields that were supplied get the new values, the omitted ones and \<open>created_at\<close> and
  the identifier stay, and \<open>updated_at\<close> becomes the clock reading taken by the update.
  That reading is not compared with the old timestamp: the new \<open>updated_at\<close> is at or
  after the old one exactly when the reading is. With the status alone supplied, title
  and description are unchanged.
\<close>

theorem update_changes_supplied_fields_only:
  assumes "get_task s i = Some task"
  shows "\<exists>pre post task'.
           tasks s = pre @ task # post \<and> (\<forall>x\<in>set pre. ident x \<noteq> i) \<and>
           update_task now i t d st s =
             ((True, MSG_UPDATED), save_tasks (s\<lparr>tasks := pre @ task' # post\<rparr>)) \<and>
           ident task' = ident task \<and>
           title task' = (case t of None \<Rightarrow> title task | Some x \<Rightarrow> x) \<and>
           description task' = (case d of None \<Rightarrow> description task | Some x \<Rightarrow> x) \<and>
           status task' = (case st of None \<Rightarrow> status task | Some x \<Rightarrow> x) \<and>
           created_at task' = created_at task \<and>
           updated_at task' = now \<and>
           (updated_at task \<le> now \<longrightarrow> updated_at task \<le> updated_at task')"
proof -
  from assms obtain pre post where
    split: "tasks s = pre @ task # post" "\<forall>x\<in>set pre. ident x \<noteq> i"
      "update_first (\<lambda>task. ident task = i) (assign_fields now t d st) (tasks s) =
         pre @ assign_fields now t d st task # post"
    unfolding get_task_def
    using update_first_split [of "\<lambda>task. ident task = i" "tasks s" task "assign_fields now t d st"]
    by blast
  have upd: "update_task now i t d st s =
      ((True, MSG_UPDATED), save_tasks (s\<lparr>tasks := pre @ assign_fields now t d st task # post\<rparr>))"
    using assms split(3) by (simp add: update_task_def)
  have fields: "ident (assign_fields now t d st task) = ident task"
    "title (assign_fields now t d st task) = (case t of None \<Rightarrow> title task | Some x \<Rightarrow> x)"
    "description (assign_fields now t d st task) = (case d of None \<Rightarrow> description task | Some x \<Rightarrow> x)"
    "status (assign_fields now t d st task) = (case st of None \<Rightarrow> status task | Some x \<Rightarrow> x)"
    "created_at (assign_fields now t d st task) = created_at task"
    "updated_at (assign_fields now t d st task) = now"
    by (simp_all add: assign_fields_def Let_def split: option.splits)
  show ?thesis
    apply (rule exI [of _ pre], rule exI [of _ post])
    apply (rule exI [of _ "assign_fields now t d st task"])
    using split(1,2) upd fields by simp
qed

theorem update_changes_supplied_fields_only_witness:
  "get_task bug_store 2 = Some (bug_tasks ! 1) \<and>
   update_task ''2024-01-15T17:45:00'' 2 None None (Some ''active'') bug_store =
     ((True, MSG_UPDATED),
      save_tasks (bug_store\<lparr>tasks :=
        [bug_tasks ! 0,
         \<lparr>ident = 2, title = ''fix bug'', description = [], status = ''active'',
          created_at = ''2024-01-15T10:00:00'', updated_at = ''2024-01-15T17:45:00''\<rparr>,
         bug_tasks ! 2]\<rparr>))"
proof -
  have g: "get_task bug_store 2 = Some (bug_tasks ! 1)"
    by (simp add: get_task_def bug_store_def bug_tasks_def)
  obtain pre post task' where
    r: "tasks bug_store = pre @ (bug_tasks ! 1) # post" "\<forall>x\<in>set pre. ident x \<noteq> 2"
      "update_task ''2024-01-15T17:45:00'' 2 None None (Some ''active'') bug_store =
         ((True, MSG_UPDATED), save_tasks (bug_store\<lparr>tasks := pre @ task' # post\<rparr>))"
    using update_changes_supplied_fields_only [OF g, of "''2024-01-15T17:45:00''" None None
        "Some ''active''"]
    by blast
  have "update_task ''2024-01-15T17:45:00'' 2 None None (Some ''active'') bug_store =
     ((True, MSG_UPDATED),
      save_tasks (bug_store\<lparr>tasks :=
        [bug_tasks ! 0,
         \<lparr>ident = 2, title = ''fix bug'', description = [], status = ''active'',
          created_at = ''2024-01-15T10:00:00'', updated_at = ''2024-01-15T17:45:00''\<rparr>,
         bug_tasks ! 2]\<rparr>))"
    by (simp add: update_task_def get_task_def bug_store_def bug_tasks_def assign_fields_def
          Let_def)
  with g r show ?thesis by simp
qed

text \<open>
  C8 as stated fails on the timestamp: a task whose \<open>updated_at\<close> is later than the
  clock reading of the update (from a file written under another clock, or after the
  local clock was set back) gets an earlier \<open>updated_at\<close>.
\<close>

theorem updated_at_can_go_back:
  "get_task late_store 1 = Some late_task \<and>
   updated_at late_task = ''2030-01-01T00:00:00'' \<and>
   map updated_at (tasks (snd (update_task ''2024-01-15T10:00:00'' 1 None None
      (Some ''completed'') late_store))) = [''2024-01-15T10:00:00''] \<and>
   ''2024-01-15T10:00:00'' < ''2030-01-01T00:00:00''"
  by (simp add: update_task_def get_task_def late_store_def late_task_def assign_fields_def
        save_tasks_def Let_def)

text \<open>
  C9: for an identifier that no task of the store has, \<open>update_task\<close> and \<open>delete_task\<close>
  both return the failure flag with the message "task not found" (in Russian), and the
  store is left as it was: the list of tasks is the same and the file is not written.
\<close>

theorem absent_id_update_delete_fail:
  "i \<notin> ident ` set (tasks s) \<Longrightarrow>
     update_task now i t d st s = ((False, MSG_NOT_FOUND), s) \<and>
     delete_task i s = ((False, MSG_NOT_FOUND), s)"
  using get_task_None_iff [of s i] by (simp add: update_task_def delete_task_def)

theorem absent_id_update_delete_fail_witness:
  "7 \<notin> ident ` set (tasks bug_store) \<and>
   update_task ''2024-01-15T17:45:00'' 7 None None (Some ''completed'') bug_store =
     ((False, MSG_NOT_FOUND), bug_store) \<and>
   delete_task 7 bug_store = ((False, MSG_NOT_FOUND), bug_store)"
proof -
  have a: "7 \<notin> ident ` set (tasks bug_store)"
    by (simp add: bug_store_def bug_tasks_def)
  show ?thesis
    using a absent_id_update_delete_fail [OF a] by simp
qed

section \<open>Properties of the reports\<close>

lemma traverse_map:
  "(\<And>x. x \<in> set xs \<Longrightarrow> f x = Inr (g x)) \<Longrightarrow> traverse f xs = Inr (map g xs)"
  by (induction xs) simp_all

lemma traverse_parses:
  "list_all (parses L) ts \<Longrightarrow> \<exists>dates. traverse (task_date L) ts = Inr dates"
  by (induction ts) (auto simp: parses_def split: sum.splits)

subsection \<open>Filtering by date\<close>

lemma filter_step_no_criteria:
  "\<not> truthy_int p \<Longrightarrow> \<not> (truthy_str a \<and> truthy_str b) \<Longrightarrow> parses L task \<Longrightarrow>
     filter_step L now p a b task acc = Inr acc"
  by (auto simp: filter_step_def bind_result_def parses_def split: sum.splits)

lemma filter_loop_no_criteria:
  "\<not> truthy_int p \<Longrightarrow> \<not> (truthy_str a \<and> truthy_str b) \<Longrightarrow> list_all (parses L) ts \<Longrightarrow>
     filter_loop L clock p a b k ts acc = Inr acc"
  by (induction ts arbitrary: k) (simp_all add: filter_step_no_criteria)

lemma no_criteria_empty:
  "list_all (parses L) ts \<Longrightarrow> filter_tasks_by_date L clock ts None None None = Inr ([], [])"
  by (simp add: filter_tasks_by_date_def filter_loop_no_criteria truthy_int_def truthy_str_def)



text \<open>
  C2: the claim is that the helper without a period and without bounds returns its
  input. The code has no branch for this case: it appends nothing and returns the empty
  list, here for a snapshot of three tasks.
\<close>

theorem no_criteria_returns_nothing:
  "length day_snapshot = 3 \<and>
   filter_tasks_by_date example_lib example_clock day_snapshot None None None = Inr ([], [])"
proof -
  have "list_all (parses example_lib) day_snapshot"
    by (simp add: parses_def task_date_def dict_get_def day_snapshot_def example_lib_def
          example_dates_def)
  then show ?thesis
    by (simp add: no_criteria_empty) (simp add: day_snapshot_def)
qed




subsection \<open>The summary\<close>

lemma filter_step_outside:
  assumes "n \<noteq> 0" and "\<bar>n\<bar> \<le> MAX_DELTA_DAYS"
    and "1 \<le> fst now - n" and "fst now - n \<le> MAX_ORDINAL"
    and "task_date L task = Inr td" and "utcoffset td = None"
    and "instant td < instant (datetime_now now) - n * 86400000000"
  shows "filter_step L now (Some n) a b task acc = Inr acc"
  using assms
  by (simp add: filter_step_def bind_result_def truthy_int_def sub_days_def datetime_now_def
        dt_le_def instant_def algebra_simps)

lemma filter_loop_outside:
  assumes "n \<noteq> 0" and "\<bar>n\<bar> \<le> MAX_DELTA_DAYS"
  shows "(\<forall>j<length ts. 1 \<le> fst (clock (k + j)) - n \<and> fst (clock (k + j)) - n \<le> MAX_ORDINAL \<and>
            (\<exists>td. task_date L (ts ! j) = Inr td \<and> utcoffset td = None \<and>
                  instant td < instant (datetime_now (clock (k + j))) - n * 86400000000)) \<Longrightarrow>
         filter_loop L clock (Some n) a b k ts acc = Inr acc"
proof (induction ts arbitrary: k)
  case Nil
  then show ?case by simp
next
  case (Cons task ts)
  from Cons.prems [rule_format, of 0] obtain td where
    h: "1 \<le> fst (clock k) - n" "fst (clock k) - n \<le> MAX_ORDINAL"
      "task_date L task = Inr td" "utcoffset td = None"
      "instant td < instant (datetime_now (clock k)) - n * 86400000000"
    by auto
  have step: "filter_step L (clock k) (Some n) a b task acc = Inr acc"
    using filter_step_outside [OF assms h] .
  have "\<forall>j<length ts. 1 \<le> fst (clock (Suc k + j)) - n \<and> fst (clock (Suc k + j)) - n \<le> MAX_ORDINAL \<and>
            (\<exists>td. task_date L (ts ! j) = Inr td \<and> utcoffset td = None \<and>
                  instant td < instant (datetime_now (clock (Suc k + j))) - n * 86400000000)"
  proof (intro allI impI)
    fix j assume "j < length ts"
    then have "Suc j < length (task # ts)" by simp
    from Cons.prems [rule_format, OF this] show "1 \<le> fst (clock (Suc k + j)) - n \<and> fst (clock (Suc k + j)) - n \<le> MAX_ORDINAL \<and>
            (\<exists>td. task_date L (ts ! j) = Inr td \<and> utcoffset td = None \<and>
                  instant td < instant (datetime_now (clock (Suc k + j))) - n * 86400000000)"
      by simp
  qed
  then have "filter_loop L clock (Some n) a b (Suc k) ts acc = Inr acc"
    by (rule Cons.IH)
  with step show ?case by simp
qed

lemma period_map_cases: "period_map p = Some n \<Longrightarrow> n = 1 \<or> n = 7 \<or> n = 30"
  by (auto simp: period_map_def split: if_splits)

text \<open>
  C10, as the code has it: on a non-empty snapshot and for a period of the table (today,
  week, month, of \<open>n\<close> days), when every \<open>created_at\<close> parses as a naive datetime that
  lies more than \<open>n\<close> days before the clock reading of its turn in the filter (the
  cutoff being a date of the calendar), the summary is not the "no data" dictionary but
  a report with no tasks, an empty status distribution, rates 0 and the placeholder day
  with count 0.
\<close>

theorem summary_of_period_without_tasks:
  assumes "tasks' \<noteq> []" and "period_map period' = Some n"
    and "\<forall>j<length tasks'. 1 \<le> fst (clock j) - n \<and> fst (clock j) - n \<le> MAX_ORDINAL \<and>
            (\<exists>td. task_date L (tasks' ! j) = Inr td \<and> utcoffset td = None \<and>
                  instant td < instant (datetime_now (clock j)) - n * 86400000000)"
  shows "generate_summary_report L clock tasks' period' =
           Inr (Report \<lparr>period = period', total_tasks = 0, status_distribution = [],
                        completion_rate = PyInt 0, most_active_day = (NO_DATA_DAY, 0),
                        average_tasks_per_day = PyInt 0\<rparr>, [])"
proof -
  have n: "n \<noteq> 0" "\<bar>n\<bar> \<le> MAX_DELTA_DAYS"
    using period_map_cases [OF assms(2)] by (auto simp: MAX_DELTA_DAYS_def)
  have "filter_loop L clock (Some n) None None 0 tasks' ([], []) = Inr ([], [])"
    using filter_loop_outside [OF n, of tasks' clock 0 L None None "([], [])"] assms(3) by simp
  then have "summary_scope L clock tasks' period' = Inr ([], [])"
    using assms(2) by (simp add: summary_scope_def filter_tasks_by_date_def)
  then show ?thesis
    using assms(1)
    by (simp add: generate_summary_report_def bind_result_def count_statuses_def count_days_def
          max_by_count_def py_round_def)
qed

theorem summary_of_period_without_tasks_witness:
  "old_snapshot \<noteq> [] \<and> period_map ''week'' = Some 7 \<and>
   generate_summary_report example_lib example_clock old_snapshot ''week'' =
     Inr (Report \<lparr>period = ''week'', total_tasks = 0, status_distribution = [],
                  completion_rate = PyInt 0, most_active_day = (NO_DATA_DAY, 0),
                  average_tasks_per_day = PyInt 0\<rparr>, [])"
proof -
  have a: "old_snapshot \<noteq> []"
    by (simp add: old_snapshot_def)
  have b: "period_map ''week'' = Some 7"
    by (simp add: period_map_def)
  have c: "\<forall>j<length old_snapshot.
      1 \<le> fst (example_clock j) - 7 \<and> fst (example_clock j) - 7 \<le> MAX_ORDINAL \<and>
      (\<exists>td. task_date example_lib (old_snapshot ! j) = Inr td \<and> utcoffset td = None \<and>
            instant td < instant (datetime_now (example_clock j)) - 7 * 86400000000)"
    by (simp add: old_snapshot_def example_clock_def MAX_ORDINAL_def task_date_def dict_get_def
          example_lib_def example_dates_def instant_def datetime_now_def)
  show ?thesis
    using a b summary_of_period_without_tasks [OF a b c] by simp
qed

text \<open>
  C10 as stated fails where a \<open>created_at\<close> outside the period is not a naive
  datetime: the snapshot is not empty and none of its tasks was created within the last
  week, but the summary raises \<open>ValueError\<close> on a \<open>created_at\<close> that is no date, and
  \<open>TypeError\<close> on one of June 2023 that carries a UTC offset.
\<close>

theorem summary_raises_on_old_tasks:
  "garbage_snapshot \<noteq> [] \<and>
   generate_summary_report example_lib example_clock garbage_snapshot ''week'' =
     Inl ValueError \<and>
   aware_snapshot \<noteq> [] \<and>
   map (task_date example_lib) aware_snapshot =
     [Inr \<lparr>ordinal = 738672, micros = 43200000000, utcoffset = Some 0\<rparr>] \<and>
   generate_summary_report example_lib example_clock aware_snapshot ''week'' =
     Inl TypeError"
  by (simp add: generate_summary_report_def summary_scope_def period_map_def
        filter_tasks_by_date_def filter_step_def bind_result_def truthy_int_def task_date_def
        dict_get_def garbage_snapshot_def aware_snapshot_def example_lib_def example_dates_def
        example_clock_def sub_days_def datetime_now_def dt_le_def MAX_DELTA_DAYS_def
        MAX_ORDINAL_def)

text \<open>
  The tasks in range of a summary: all of them without a period of the table, and for a
  period of \<open>n\<close> days those created within \<open>n\<close> days before the clock reading of
  their turn, in the order of the snapshot.
\<close>

lemma filter_step_period:
  assumes "n \<noteq> 0" and "\<bar>n\<bar> \<le> MAX_DELTA_DAYS"
    and "1 \<le> fst now - n" and "fst now - n \<le> MAX_ORDINAL"
    and "task_date L task = Inr td" and "utcoffset td = None"
  shows "filter_step L now (Some n) a b task acc =
           Inr (if in_period L now n task then (fst acc @ [task], snd acc) else acc)"
  using assms
  by (simp add: filter_step_def bind_result_def truthy_int_def sub_days_def datetime_now_def
        dt_le_def instant_def in_period_def algebra_simps)

lemma filter_loop_period:
  assumes "n \<noteq> 0" and "\<bar>n\<bar> \<le> MAX_DELTA_DAYS"
  shows "(\<forall>j<length ts. 1 \<le> fst (clock (k + j)) - n \<and> fst (clock (k + j)) - n \<le> MAX_ORDINAL \<and>
            (\<exists>td. task_date L (ts ! j) = Inr td \<and> utcoffset td = None)) \<Longrightarrow>
         filter_loop L clock (Some n) a b k ts acc =
           Inr (fst acc @ map snd (filter (\<lambda>(j, task). in_period L (clock j) n task)
                                      (enumerate k ts)), snd acc)"
proof (induction ts arbitrary: k acc)
  case Nil
  then show ?case by simp
next
  case (Cons task ts)
  from Cons.prems [rule_format, of 0] obtain td where
    h: "1 \<le> fst (clock k) - n" "fst (clock k) - n \<le> MAX_ORDINAL"
      "task_date L task = Inr td" "utcoffset td = None"
    by auto
  have step: "filter_step L (clock k) (Some n) a b task acc =
      Inr (if in_period L (clock k) n task then (fst acc @ [task], snd acc) else acc)"
    using filter_step_period [OF assms h] .
  have rest: "\<forall>j<length ts. 1 \<le> fst (clock (Suc k + j)) - n \<and>
      fst (clock (Suc k + j)) - n \<le> MAX_ORDINAL \<and>
      (\<exists>td. task_date L (ts ! j) = Inr td \<and> utcoffset td = None)"
  proof (intro allI impI)
    fix j assume "j < length ts"
    then have "Suc j < length (task # ts)" by simp
    from Cons.prems [rule_format, OF this]
    show "1 \<le> fst (clock (Suc k + j)) - n \<and> fst (clock (Suc k + j)) - n \<le> MAX_ORDINAL \<and>
      (\<exists>td. task_date L (ts ! j) = Inr td \<and> utcoffset td = None)"
      by simp
  qed
  show ?case
    using step Cons.IH [OF rest] by simp
qed

lemma summary_scope_period:
  assumes "period_map period' = Some n"
    and "\<forall>j<length tasks'. 1 \<le> fst (clock j) - n \<and> fst (clock j) - n \<le> MAX_ORDINAL \<and>
            (\<exists>td. task_date L (tasks' ! j) = Inr td \<and> utcoffset td = None)"
  shows "summary_scope L clock tasks' period' =
           Inr (map snd (filter (\<lambda>(j, task). in_period L (clock j) n task) (enumerate 0 tasks')),
                [])"
proof -
  have n: "n \<noteq> 0" "\<bar>n\<bar> \<le> MAX_DELTA_DAYS"
    using period_map_cases [OF assms(1)] by (auto simp: MAX_DELTA_DAYS_def)
  show ?thesis
    using filter_loop_period [OF n, of tasks' clock 0 L None None "([], [])"] assms
    by (simp add: summary_scope_def filter_tasks_by_date_def)
qed

lemma summary_scope_all:
  "period_map period' = None \<Longrightarrow> summary_scope L clock tasks' period' = Inr (tasks', [])"
  by (simp add: summary_scope_def)

lemma map_of_count_up:
  "map_of (count_up k m) =
     (map_of m)(k \<mapsto> (case map_of m k of None \<Rightarrow> 1 | Some n \<Rightarrow> n + 1))"
  by (induction m) (auto simp: fun_eq_iff)

lemma count_get_count_up:
  "count_get (count_up k m) k' 0 = count_get m k' 0 + (if k = k' then 1 else 0)"
  by (simp add: count_get_def map_of_count_up split: option.splits)

lemma count_get_foldl:
  "count_get (foldl (\<lambda>m x. count_up (f x) m) m0 xs) k 0 =
     count_get m0 k 0 + length (filter (\<lambda>x. f x = k) xs)"
  by (induction xs arbitrary: m0) (simp_all add: count_get_count_up)

lemma count_get_Nil: "count_get [] k dflt = dflt"
  by (simp add: count_get_def)

lemma count_statuses_get:
  "count_get (count_statuses ts) st 0 = length (filter (\<lambda>task. task_status task = st) ts)"
  unfolding count_statuses_def
  by (simp only: count_get_foldl count_get_Nil add_0)

lemma count_up_same_day:
  "foldl (\<lambda>m dt. count_up (g (ordinal dt)) m) [(g d, c)] dates = [(g d, c + length dates)]"
  if "\<forall>dt\<in>set dates. ordinal dt = d"
  using that by (induction dates arbitrary: c) simp_all

lemma count_days_same_day:
  assumes "dates \<noteq> []" and "\<forall>dt\<in>set dates. ordinal dt = d"
  shows "count_days L dates = [(strftime_ymd L d, length dates)]"
proof -
  from assms(1) obtain dt rest where dates: "dates = dt # rest" by (cases dates) auto
  with assms(2) have "ordinal dt = d" "\<forall>x\<in>set rest. ordinal x = d" by simp_all
  then show ?thesis
    using count_up_same_day [of rest d "strftime_ymd L" 1]
    by (simp add: count_days_def dates)
qed

lemma traverse_task_date_on_day:
  "\<forall>task\<in>set ts. on_day L d task \<Longrightarrow>
     \<exists>dates. traverse (task_date L) ts = Inr dates \<and> length dates = length ts \<and>
             (\<forall>dt\<in>set dates. ordinal dt = d)"
  by (induction ts) (auto simp: on_day_def split: sum.splits)

lemma summary_report_fields:
  assumes "tasks' \<noteq> []" and "generate_summary_report L clock tasks' period' = Inr (rep, out)"
  shows "\<exists>filtered r.
           summary_scope L clock tasks' period' = Inr (filtered, out) \<and> rep = Report r \<and>
           total_tasks r = length filtered \<and>
           completion_rate r =
             (if length filtered = 0 then PyInt 0
              else PyFloat (py_round2 (dbl_times
                     (dbl_round (completed_count filtered) (length filtered)) 100)))"
proof -
  from assms obtain filtered out' where
    scope: "summary_scope L clock tasks' period' = Inr (filtered, out')"
    by (cases "summary_scope L clock tasks' period'")
       (auto simp: generate_summary_report_def bind_result_def)
  from assms scope obtain dates where
    dates: "traverse (task_date L) filtered = Inr dates"
    by (cases "traverse (task_date L) filtered")
       (auto simp: generate_summary_report_def bind_result_def Let_def)
  define r where "r =
     \<lparr>period = period', total_tasks = length filtered,
      status_distribution = count_statuses filtered,
      completion_rate = py_round (if 0 < length filtered
         then PyFloat (dbl_times (dbl_round (completed_count filtered) (length filtered)) 100)
         else PyInt 0),
      most_active_day = max_by_count (count_days L dates) (NO_DATA_DAY, 0),
      average_tasks_per_day =
        (if count_days L dates \<noteq> []
         then PyFloat (py_round2 (dbl_round (length filtered) (length (count_days L dates))))
         else PyInt 0)\<rparr>"
  have "generate_summary_report L clock tasks' period' = Inr (Report r, out')"
    using assms(1) scope dates
    by (simp add: generate_summary_report_def bind_result_def Let_def count_statuses_get
          completed_count_def r_def)
  with assms(2) have eq: "rep = Report r" "out = out'" by simp_all
  have "total_tasks r = length filtered" by (simp add: r_def)
  moreover have "completion_rate r =
             (if length filtered = 0 then PyInt 0
              else PyFloat (py_round2 (dbl_times
                     (dbl_round (completed_count filtered) (length filtered)) 100)))"
    by (simp add: r_def py_round_def)
  ultimately show ?thesis using scope eq by blast
qed

lemma summary_same_day:
  assumes "period_map period' = None" and "tasks' \<noteq> []"
    and "\<forall>task\<in>set tasks'. on_day L d task"
  shows "generate_summary_report L clock tasks' period' =
     Inr (Report \<lparr>period = period', total_tasks = length tasks',
                  status_distribution = count_statuses tasks',
                  completion_rate =
                    PyFloat (py_round2 (dbl_times
                      (dbl_round (completed_count tasks') (length tasks')) 100)),
                  most_active_day = (strftime_ymd L d, length tasks'),
                  average_tasks_per_day =
                    PyFloat (py_round2 (dbl_round (length tasks') 1))\<rparr>, [])"
proof -
  from traverse_task_date_on_day [OF assms(3)] obtain dates where
    dates: "traverse (task_date L) tasks' = Inr dates" "length dates = length tasks'"
      "\<forall>dt\<in>set dates. ordinal dt = d"
    by blast
  with assms(2) have "dates \<noteq> []" by auto
  then have days: "count_days L dates = [(strftime_ymd L d, length tasks')]"
    using count_days_same_day [of dates d L] dates by simp
  show ?thesis
    using assms(1,2) dates(1) days
    by (simp add: generate_summary_report_def summary_scope_def bind_result_def Let_def
          count_statuses_get completed_count_def max_by_count_def py_round_def)
qed

text \<open>The float operations at some values, as CPython computes them.\<close>

lemmas dbl_defs =
  dbl_round_def floor_log2_def scaled_def round_half_even_def dbl_times_def py_round2_def Let_def

lemma dbl_round_tenth: "dbl_round 1 10 = (7205759403792794, - 56)"
  by (simp add: dbl_defs)

lemma dbl_round_two_thirds: "dbl_round 2 3 = (6004799503160661, - 53)"
  by (simp add: dbl_defs)

lemma rate_two_of_three:
  "py_round2 (dbl_times (dbl_round 2 3) 100) = dbl_round 6667 100"
  by (simp add: dbl_defs)

lemma rate_23_of_160:
  "py_round2 (dbl_times (dbl_round 23 160) 100) = dbl_round 1437 100"
  by (simp add: dbl_defs)

lemma average_43_on_40:
  "py_round2 (dbl_round 43 40) = dbl_round 107 100"
  by (simp add: dbl_defs)

lemma average_three_on_one:
  "py_round2 (dbl_round 3 1) = dbl_round 3 1" "dbl_val (dbl_round 3 1) = 3"
  by (simp_all add: dbl_defs dbl_val_def)

lemma float_66_67:
  "dbl_round 6667 100 = (4691484174324859, - 46)"
  "\<bar>dbl_val (4691484174324859, - 46) - 6667 / 100\<bar> < 1 / 10 ^ 13"
  by (simp_all add: dbl_defs dbl_val_def)

lemma round_half_even_nearest:
  assumes "0 < b"
  shows "\<bar>real a / real b - real (round_half_even a b)\<bar> \<le> 1 / 2"
proof -
  define q r where "q = a div b" and "r = a mod b"
  have a: "real a = real q * real b + real r"
    unfolding q_def r_def
    by (metis div_mult_mod_eq of_nat_add of_nat_mult)
  have r: "r < b"
    unfolding r_def using assms by simp
  have frac: "real a / real b = real q + real r / real b"
    using assms by (simp add: a field_simps)
  have low: "\<bar>real a / real b - real q\<bar> \<le> 1 / 2" if "2 * r \<le> b"
  proof -
    from that have "2 * real r \<le> real b" by (metis of_nat_le_iff of_nat_mult of_nat_numeral)
    then have "real r / real b \<le> 1 / 2" using assms by (simp add: field_simps)
    moreover have "0 \<le> real r / real b" by simp
    ultimately show ?thesis by (simp add: frac)
  qed
  have high: "\<bar>real a / real b - real (q + 1)\<bar> \<le> 1 / 2" if "b \<le> 2 * r"
  proof -
    from that have "real b \<le> 2 * real r" by (metis of_nat_le_iff of_nat_mult of_nat_numeral)
    then have "1 / 2 \<le> real r / real b" using assms by (simp add: field_simps)
    moreover have "real r / real b < 1" using r assms by simp
    ultimately show ?thesis by (simp add: frac)
  qed
  show ?thesis
    using low high
    by (auto simp: round_half_even_def Let_def q_def [symmetric] r_def [symmetric])
qed

lemma completed_count_replicate:
  "completed_count (replicate m x @ replicate n y) =
     (if task_status x = JStr STATUS_COMPLETED then m else 0) +
     (if task_status y = JStr STATUS_COMPLETED then n else 0)"
  by (simp add: completed_count_def)

text \<open>
  C5, as the code has it: when a summary is returned for a non-empty snapshot, its
  completion rate is the integer 0 if no task is in range and otherwise the Python
  float \<open>round((completed / total) * 100, 2)\<close>, where \<open>completed\<close> is the number of
  tasks in range with exactly the status "completed" and \<open>total\<close> the number of tasks
  in range, and where the division, the multiplication and the rounding each give the
  nearest float. Without a period filter a summary is returned whenever every
  \<open>created_at\<close> parses. For three tasks created on one calendar day, two of them
  completed, the unfiltered summary has 3 tasks, the rate is the float \<open>66.67\<close>, and the
  most active day has 3 tasks.
\<close>

theorem summary_completion_rate:
  "(tasks' \<noteq> [] \<longrightarrow> generate_summary_report L clock tasks' period' = Inr (rep, out) \<longrightarrow>
      (\<exists>filtered r.
         summary_scope L clock tasks' period' = Inr (filtered, out) \<and> rep = Report r \<and>
         total_tasks r = length filtered \<and>
         completion_rate r =
           (if length filtered = 0 then PyInt 0
            else PyFloat (py_round2 (dbl_times
                   (dbl_round (completed_count filtered) (length filtered)) 100))))) \<and>
   (tasks' \<noteq> [] \<longrightarrow> period_map period' = None \<longrightarrow> list_all (parses L) tasks' \<longrightarrow>
      (\<exists>r. generate_summary_report L clock tasks' period' = Inr (Report r, []))) \<and>
   (period_map period' = None \<longrightarrow> length tasks' = 3 \<longrightarrow> (\<forall>task\<in>set tasks'. on_day L d task) \<longrightarrow>
    completed_count tasks' = 2 \<longrightarrow>
      (\<exists>r. generate_summary_report L clock tasks' period' = Inr (Report r, []) \<and>
           total_tasks r = 3 \<and> completion_rate r = PyFloat (dbl_round 6667 100) \<and>
           snd (most_active_day r) = 3))"
proof (intro conjI impI)
  assume "tasks' \<noteq> []" and "generate_summary_report L clock tasks' period' = Inr (rep, out)"
  then show "\<exists>filtered r.
         summary_scope L clock tasks' period' = Inr (filtered, out) \<and> rep = Report r \<and>
         total_tasks r = length filtered \<and>
         completion_rate r =
           (if length filtered = 0 then PyInt 0
            else PyFloat (py_round2 (dbl_times
                   (dbl_round (completed_count filtered) (length filtered)) 100)))"
    by (rule summary_report_fields)
next
  assume ne: "tasks' \<noteq> []" and all: "period_map period' = None"
    and "list_all (parses L) tasks'"
  then obtain dates where "traverse (task_date L) tasks' = Inr dates"
    using traverse_parses by blast
  with ne all show "\<exists>r. generate_summary_report L clock tasks' period' = Inr (Report r, [])"
    by (simp add: generate_summary_report_def summary_scope_def bind_result_def Let_def)
next
  assume all: "period_map period' = None" and three: "length tasks' = 3"
    and day: "\<forall>task\<in>set tasks'. on_day L d task" and two: "completed_count tasks' = 2"
  from three have ne: "tasks' \<noteq> []" by auto
  show "\<exists>r. generate_summary_report L clock tasks' period' = Inr (Report r, []) \<and>
           total_tasks r = 3 \<and> completion_rate r = PyFloat (dbl_round 6667 100) \<and>
           snd (most_active_day r) = 3"
    using summary_same_day [OF all ne day, of clock] three two rate_two_of_three by simp
qed

theorem summary_completion_rate_witness:
  "period_map ''all'' = None \<and> length day_snapshot = 3 \<and>
   list_all (on_day example_lib 738900) day_snapshot \<and> completed_count day_snapshot = 2 \<and>
   generate_summary_report example_lib example_clock day_snapshot ''all'' =
     Inr (Report \<lparr>period = ''all'', total_tasks = 3,
                  status_distribution = [(JStr STATUS_COMPLETED, 2), (JStr STATUS_ACTIVE, 1)],
                  completion_rate = PyFloat (dbl_round 6667 100),
                  most_active_day = (''2024-01-15'', 3),
                  average_tasks_per_day = PyFloat (dbl_round 3 1)\<rparr>, [])"
proof -
  have a: "period_map ''all'' = None"
    by (simp add: period_map_def)
  have b: "length day_snapshot = 3"
    by (simp add: day_snapshot_def)
  have c: "list_all (on_day example_lib 738900) day_snapshot"
    by (simp add: on_day_def task_date_def dict_get_def day_snapshot_def example_lib_def
          example_dates_def)
  have e: "completed_count day_snapshot = 2"
    by (simp add: completed_count_def task_status_def dict_get_def day_snapshot_def
          STATUS_COMPLETED_def STATUS_ACTIVE_def)
  from c have c': "\<forall>task\<in>set day_snapshot. on_day example_lib 738900 task"
    by (simp add: list_all_iff)
  obtain r where
    r: "generate_summary_report example_lib example_clock day_snapshot ''all'' =
          Inr (Report r, [])"
      "total_tasks r = 3" "completion_rate r = PyFloat (dbl_round 6667 100)"
      "snd (most_active_day r) = 3"
    using summary_completion_rate [of day_snapshot example_lib example_clock "''all''"
        _ _ 738900] a b c' e
    by blast
  have ne: "day_snapshot \<noteq> []"
    using b by auto
  have s: "count_statuses day_snapshot = [(JStr STATUS_COMPLETED, 2), (JStr STATUS_ACTIVE, 1)]"
    by (simp add: count_statuses_def task_status_def dict_get_def day_snapshot_def
          STATUS_COMPLETED_def STATUS_ACTIVE_def)
  have d: "strftime_ymd example_lib 738900 = ''2024-01-15''"
    by (simp add: example_lib_def example_days_def)
  have "generate_summary_report example_lib example_clock day_snapshot ''all'' =
     Inr (Report \<lparr>period = ''all'', total_tasks = 3,
                  status_distribution = [(JStr STATUS_COMPLETED, 2), (JStr STATUS_ACTIVE, 1)],
                  completion_rate = PyFloat (dbl_round 6667 100),
                  most_active_day = (''2024-01-15'', 3),
                  average_tasks_per_day = PyFloat (dbl_round 3 1)\<rparr>, [])"
    using summary_same_day [OF a ne c', of example_clock] r b e s d rate_two_of_three
      average_three_on_one(1)
    by simp
  with a b c e show ?thesis by blast
qed

text \<open>
  C5 as stated fails where the floats differ from the exact quotient: of 160 tasks 23
  are completed, so that the exact rate is 14.375, which rounds to 14.38; the floats
  \<open>23 / 160\<close> and its product by 100 lie just below the exact values, and the code
  returns the float \<open>14.37\<close>.
\<close>

theorem rate_of_23_in_160:
  "length skew_snapshot = 160 \<and> completed_count skew_snapshot = 23 \<and>
   rate_of (generate_summary_report example_lib example_clock skew_snapshot ''all'') =
     Some (PyFloat (dbl_round 1437 100)) \<and>
   real 23 / real 160 * 100 = 14375 / 1000 \<and>
   round_half_even (23 * 100 * 100) 160 = 1438 \<and>
   dbl_round 1437 100 \<noteq> dbl_round 1438 100"
proof -
  have a: "period_map ''all'' = None"
    by (simp add: period_map_def)
  have b: "length skew_snapshot = 160"
    by (simp add: skew_snapshot_def)
  then have ne: "skew_snapshot \<noteq> []"
    by auto
  have c: "\<forall>task\<in>set skew_snapshot. on_day example_lib 738900 task"
    by (auto simp: on_day_def task_date_def dict_get_def skew_snapshot_def example_lib_def
          example_dates_def)
  have e: "completed_count skew_snapshot = 23"
    unfolding skew_snapshot_def completed_count_replicate
    by (simp add: task_status_def dict_get_def STATUS_COMPLETED_def STATUS_ACTIVE_def)
  have "rate_of (generate_summary_report example_lib example_clock skew_snapshot ''all'') =
     Some (PyFloat (dbl_round 1437 100))"
    using summary_same_day [OF a ne c, of example_clock] b e rate_23_of_160
    by (simp add: rate_of_def)
  moreover have "round_half_even (23 * 100 * 100) 160 = 1438"
    "dbl_round 1437 100 \<noteq> dbl_round 1438 100"
    by (simp_all add: dbl_defs)
  ultimately show ?thesis
    using b e by simp
qed

subsection \<open>The timeline\<close>

lemma timeline_start_error:
  "tasks' \<noteq> [] \<Longrightarrow> sub_days (datetime_now now) days = Inl e \<Longrightarrow>
     generate_timeline_report L now tasks' days = Inl e"
  by (simp add: generate_timeline_report_def bind_result_def)

lemma daily_tasks_filter:
  "list_all (parses L) ts \<Longrightarrow> daily_tasks L d ts = Inr (filter (on_day L d) ts)"
  by (induction ts) (auto simp: parses_def on_day_def split: sum.splits)

lemma timeline_day_value:
  assumes "list_all (parses L) ts" and "\<bar>i\<bar> \<le> MAX_DELTA_DAYS"
    and "1 \<le> ordinal start + i" and "ordinal start + i \<le> MAX_ORDINAL"
  shows "timeline_day L ts start i =
           Inr \<lparr>entry_date = strftime_ymd L (ordinal start + i),
                entry_total_tasks = length (filter (on_day L (ordinal start + i)) ts),
                entry_statuses = count_statuses (filter (on_day L (ordinal start + i)) ts)\<rparr>"
  using assms
  by (simp add: timeline_day_def add_days_def bind_result_def daily_tasks_filter)

text \<open>
  C4, as the code has it: on a non-empty snapshot whose \<open>created_at\<close> values all parse,
  and for \<open>days\<close> from -1 on such that the day \<open>now - days\<close> is a date of the calendar,
  the timeline has \<open>days + 1\<close> entries, entry \<open>i\<close> being the day \<open>now - days + i\<close> with the
  number of tasks of the snapshot created on that day, whatever their time of day.
\<close>

theorem timeline_entries:
  assumes "tasks' \<noteq> []" and "list_all (parses L) tasks'"
    and "- 1 \<le> days" and "days < fst now"
    and "fst now - days \<le> MAX_ORDINAL" and "fst now \<le> MAX_ORDINAL"
  shows "\<exists>entries.
           generate_timeline_report L now tasks' days =
             Inr (Report \<lparr>period_days = days, timeline = entries\<rparr>) \<and>
           length entries = nat (days + 1) \<and>
           (\<forall>i<length entries.
              entry_date (entries ! i) = strftime_ymd L (fst now - days + int i) \<and>
              entry_total_tasks (entries ! i) =
                length (filter (on_day L (fst now - days + int i)) tasks'))"
proof -
  define start where "start = (datetime_now now)\<lparr>ordinal := fst now - days\<rparr>"
  define entry where "entry i =
      \<lparr>entry_date = strftime_ymd L (fst now - days + i),
       entry_total_tasks = length (filter (on_day L (fst now - days + i)) tasks'),
       entry_statuses = count_statuses (filter (on_day L (fst now - days + i)) tasks')\<rparr>" for i
  have start: "sub_days (datetime_now now) days = Inr start"
    using assms(3-6)
    by (simp add: sub_days_def start_def datetime_now_def MAX_DELTA_DAYS_def MAX_ORDINAL_def)
  have ord: "ordinal start = fst now - days"
    by (simp add: start_def)
  have day: "timeline_day L tasks' start i = Inr (entry i)" if "i \<in> set [0..days]" for i
  proof -
    from that have "0 \<le> i" "i \<le> days" by simp_all
    with assms(3-6) have "\<bar>i\<bar> \<le> MAX_DELTA_DAYS" "1 \<le> ordinal start + i"
      "ordinal start + i \<le> MAX_ORDINAL"
      by (simp_all add: ord MAX_DELTA_DAYS_def MAX_ORDINAL_def)
    from timeline_day_value [OF assms(2) this] show ?thesis
      by (simp add: entry_def ord)
  qed
  have "traverse (timeline_day L tasks' start) [0..days] = Inr (map entry [0..days])"
    by (rule traverse_map) (rule day)
  then have rep: "generate_timeline_report L now tasks' days =
      Inr (Report \<lparr>period_days = days, timeline = map entry [0..days]\<rparr>)"
    using assms(1) start by (simp add: generate_timeline_report_def bind_result_def)
  have len: "length (map entry [0..days]) = nat (days + 1)"
    by simp
  have nth: "map entry [0..days] ! i = entry (int i)" if "i < length (map entry [0..days])" for i
    using that by simp
  show ?thesis
    apply (rule exI [of _ "map entry [0..days]"])
    using rep len nth by (simp add: entry_def)
qed

theorem timeline_entries_witness:
  "sparse_snapshot \<noteq> [] \<and> list_all (parses example_lib) sparse_snapshot \<and>
   (\<exists>entries.
      generate_timeline_report example_lib (738900, 43200000000) sparse_snapshot 2 =
        Inr (Report \<lparr>period_days = 2, timeline = entries\<rparr>) \<and>
      length entries = 3 \<and>
      entry_total_tasks (entries ! 0) = 1 \<and> entry_date (entries ! 0) = ''2024-01-13'' \<and>
      entry_total_tasks (entries ! 1) = 0 \<and> entry_date (entries ! 1) = ''2024-01-14'' \<and>
      entry_total_tasks (entries ! 2) = 2 \<and> entry_date (entries ! 2) = ''2024-01-15'')"
proof -
  have a: "sparse_snapshot \<noteq> []"
    by (simp add: sparse_snapshot_def)
  have b: "list_all (parses example_lib) sparse_snapshot"
    by (simp add: parses_def task_date_def dict_get_def sparse_snapshot_def example_lib_def
          example_dates_def)
  have c: "- 1 \<le> (2::int)" "2 < fst (738900::int, 43200000000::nat)"
    "fst (738900::int, 43200000000::nat) - 2 \<le> MAX_ORDINAL"
    "fst (738900::int, 43200000000::nat) \<le> MAX_ORDINAL"
    by (simp_all add: MAX_ORDINAL_def)
  obtain entries where
    e: "generate_timeline_report example_lib (738900, 43200000000) sparse_snapshot 2 =
          Inr (Report \<lparr>period_days = 2, timeline = entries\<rparr>)"
      "length entries = nat (2 + 1)"
      "\<forall>i<length entries.
         entry_date (entries ! i) =
           strftime_ymd example_lib (fst (738900::int, 43200000000::nat) - 2 + int i) \<and>
         entry_total_tasks (entries ! i) =
           length (filter (on_day example_lib (fst (738900::int, 43200000000::nat) - 2 + int i))
                     sparse_snapshot)"
    using timeline_entries [OF a b c] by blast
  have len: "length entries = 3"
    using e(2) by simp
  have d: "strftime_ymd example_lib 738898 = ''2024-01-13''"
    "strftime_ymd example_lib 738899 = ''2024-01-14''"
    "strftime_ymd example_lib 738900 = ''2024-01-15''"
    "length (filter (on_day example_lib 738898) sparse_snapshot) = 1"
    "length (filter (on_day example_lib 738899) sparse_snapshot) = 0"
    "length (filter (on_day example_lib 738900) sparse_snapshot) = 2"
    by (simp_all add: on_day_def task_date_def dict_get_def sparse_snapshot_def example_lib_def
          example_dates_def example_days_def)
  from e(3) len have "entry_date (entries ! 0) = ''2024-01-13'' \<and>
      entry_total_tasks (entries ! 0) = 1"
    using d by (elim allE [of _ 0]) simp
  moreover from e(3) len have "entry_date (entries ! 1) = ''2024-01-14'' \<and>
      entry_total_tasks (entries ! 1) = 0"
    using d by (elim allE [of _ 1]) simp
  moreover from e(3) len have "entry_date (entries ! 2) = ''2024-01-15'' \<and>
      entry_total_tasks (entries ! 2) = 2"
    using d by (elim allE [of _ 2]) simp
  ultimately show ?thesis
    using a b e(1) len by blast
qed

text \<open>
  C4 as stated fails in three ways on the noon of 2024-01-15. For a snapshot with a
  \<open>created_at\<close> that is no date, two days are asked for and \<open>ValueError\<close> is raised
  instead of three entries being returned. For \<open>days = -3\<close> the timeline is empty, which
  is not \<open>days + 1\<close> entries. For \<open>days = 738900\<close> the first day would lie before the
  year 1, and \<open>OverflowError\<close> is raised.
\<close>

theorem timeline_raises_or_is_empty:
  "garbage_snapshot \<noteq> [] \<and>
   generate_timeline_report example_lib (738900, 43200000000) garbage_snapshot 2 =
     Inl ValueError \<and>
   sparse_snapshot \<noteq> [] \<and>
   generate_timeline_report example_lib (738900, 43200000000) sparse_snapshot (- 3) =
     Inr (Report \<lparr>period_days = - 3, timeline = []\<rparr>) \<and>
   generate_timeline_report example_lib (738900, 43200000000) sparse_snapshot 738900 =
     Inl OverflowError"
proof -
  have g: "garbage_snapshot \<noteq> []" and s: "sparse_snapshot \<noteq> []"
    by (simp_all add: garbage_snapshot_def sparse_snapshot_def)
  have "generate_timeline_report example_lib (738900, 43200000000) garbage_snapshot 2 =
      Inl ValueError"
    by (simp add: generate_timeline_report_def timeline_day_def bind_result_def sub_days_def
          add_days_def datetime_now_def MAX_DELTA_DAYS_def MAX_ORDINAL_def task_date_def
          dict_get_def garbage_snapshot_def example_lib_def example_dates_def upto.simps)
  moreover have "generate_timeline_report example_lib (738900, 43200000000) sparse_snapshot (- 3) =
      Inr (Report \<lparr>period_days = - 3, timeline = []\<rparr>)"
    using s
    by (simp add: generate_timeline_report_def bind_result_def sub_days_def datetime_now_def
          MAX_DELTA_DAYS_def MAX_ORDINAL_def)
  moreover have "sub_days (datetime_now (738900, 43200000000)) 738900 = Inl OverflowError"
    by (simp add: sub_days_def datetime_now_def MAX_DELTA_DAYS_def)
  then have "generate_timeline_report example_lib (738900, 43200000000) sparse_snapshot 738900 =
      Inl OverflowError"
    using s by (rule timeline_start_error [rotated])
  ultimately show ?thesis
    using g s by blast
qed

end
